theory Spec2Isabelle
  imports Complex_Main "HOL-Library.Sublist"
begin

section \<open>Python values used by the Style Finder pipeline\<close>

text \<open>
  An exception is represented by the text that \<^verbatim>\<open>str(e)\<close> gives; only subclasses of
  \<^verbatim>\<open>Exception\<close> are modelled, since these are what the \<^verbatim>\<open>except Exception\<close> clauses of
  the source catch.  Python strings are \<^typ>\<open>string\<close>; a character stands for one code point
  below 256.
\<close>

datatype py_exception = PyException (message: string)

text \<open>
  A cell of a pandas row: a string, \<^verbatim>\<open>None\<close>, or the missing-value marker \<^verbatim>\<open>NaN\<close>.
  \<open>str_cell\<close> is what an f-string prints for it, \<open>notna\<close> is \<^verbatim>\<open>pd.notna\<close>.
\<close>

datatype cell = PyStr string | PyNone | PyNaN

fun str_cell :: "cell \<Rightarrow> string" where
  "str_cell (PyStr s) = s"
| "str_cell PyNone = ''None''"
| "str_cell PyNaN = ''nan''"

fun notna :: "cell \<Rightarrow> bool" where
  "notna (PyStr s) = True"
| "notna PyNone = False"
| "notna PyNaN = False"

text \<open>
  A pandas \<^verbatim>\<open>Series\<close> (one row) is a list of labelled cells, a \<^verbatim>\<open>DataFrame\<close> the list of
  its rows.  \<open>row_get r k d\<close> is \<^verbatim>\<open>r.get(k, d)\<close>; \<open>row_item r k\<close> is \<^verbatim>\<open>r[k]\<close>, which
  raises \<^verbatim>\<open>KeyError\<close> for a label that is not there; \<^verbatim>\<open>k in r\<close> is \<open>map_of r k \<noteq> None\<close>.
\<close>

type_synonym row = "(string \<times> cell) list"
type_synonym dataframe = "row list"

definition row_get :: "row \<Rightarrow> string \<Rightarrow> cell \<Rightarrow> cell" where
  "row_get r k d = (case map_of r k of None \<Rightarrow> d | Some v \<Rightarrow> v)"

definition row_item :: "row \<Rightarrow> string \<Rightarrow> py_exception + cell" where
  "row_item r k =
     (case map_of r k of
        None \<Rightarrow> Inl (PyException ([CHR 0x27] @ k @ [CHR 0x27]))
      | Some v \<Rightarrow> Inr v)"

text \<open>
  A float is a finite value, an infinity or NaN.  Finite values are the rationals they
  denote (a float literal such as \<^verbatim>\<open>0.8\<close> is read as the decimal it is written as), and
  \<open>float_ge\<close> is Python's \<^verbatim>\<open>>=\<close>: every comparison with NaN is false.
\<close>

datatype pyfloat = Fin rat | PosInf | NegInf | NaN

fun float_ge :: "pyfloat \<Rightarrow> pyfloat \<Rightarrow> bool" where
  "float_ge NaN y = False"
| "float_ge x NaN = False"
| "float_ge PosInf y = True"
| "float_ge x NegInf = True"
| "float_ge NegInf y = False"
| "float_ge x PosInf = False"
| "float_ge (Fin a) (Fin b) = (b \<le> a)"

subsection \<open>Decimal output\<close>

definition digit_char :: "nat \<Rightarrow> char" where
  "digit_char d = ''0123456789'' ! (d mod 10)"

fun show_nat :: "nat \<Rightarrow> string" where
  "show_nat n =
     (if n < 10 then [digit_char n] else show_nat (n div 10) @ [digit_char (n mod 10)])"

declare show_nat.simps [simp del]

definition show_int :: "int \<Rightarrow> string" where
  "show_int i = (if i < 0 then ''-'' @ show_nat (nat (- i)) else show_nat (nat i))"

definition round_half_even :: "rat \<Rightarrow> int" where
  "round_half_even q =
     (let f = \<lfloor>q\<rfloor>; d = q - of_int f
      in if d < 1 / 2 then f
         else if 1 / 2 < d then f + 1
         else if even f then f else f + 1)"

text \<open>The format specification \<^verbatim>\<open>:.2f\<close>: two decimals, ties to even, sign kept.\<close>

fun fmt_2f :: "pyfloat \<Rightarrow> string" where
  "fmt_2f (Fin x) =
     (let n = nat (round_half_even (\<bar>x\<bar> * 100))
      in (if x < 0 then ''-'' else '''') @ show_nat (n div 100) @ ''.''
           @ [digit_char (n mod 100 div 10), digit_char (n mod 10)])"
| "fmt_2f PosInf = ''inf''"
| "fmt_2f NegInf = ''-inf''"
| "fmt_2f NaN = ''nan''"

subsection \<open>String operations\<close>

text \<open>\<^verbatim>\<open>str.isspace\<close> on the code points below 256, and \<^verbatim>\<open>str.strip()\<close>.\<close>

definition is_space :: "char \<Rightarrow> bool" where
  "is_space c = (of_char c \<in> {9, 10, 11, 12, 13, 28, 29, 30, 31, 32, 133, 160 :: nat})"

definition strip :: "string \<Rightarrow> string" where
  "strip s = rev (dropWhile is_space (rev (dropWhile is_space s)))"

text \<open>\<^verbatim>\<open>sep.join(parts)\<close>.\<close>

fun join :: "string \<Rightarrow> string list \<Rightarrow> string" where
  "join sep [] = []"
| "join sep [p] = p"
| "join sep (p # q # ps) = p @ sep @ join sep (q # ps)"

section \<open>models/llm\_service.py\<close>

record ollama_service =
  model_name :: string
  base_url :: string
  temperature :: rat
  top_p :: rat
  max_tokens :: int

record generate_payload =
  p_model :: string
  p_prompt :: string
  p_stream :: bool
  p_temperature :: rat
  p_top_p :: rat
  p_num_predict :: int
  p_images :: "string list option"

text \<open>
  What \<^verbatim>\<open>requests.post\<close> hands back: a status code, the body text, and the outcome of
  \<^verbatim>\<open>response.json()\<close>, which either raises or gives an object whose \<^verbatim>\<open>"response"\<close> key
  is absent (\<open>None\<close>) or holds a string, as the Ollama API defines it.  The call itself
  may raise (connection refused, timeout).
\<close>

datatype http_response =
  HttpResponse (status_code: int) (body_text: string) (json: "py_exception + string option")

type_synonym requests_post = "string \<Rightarrow> generate_payload \<Rightarrow> py_exception + http_response"

text \<open>
  The request payload, and the body of the \<^verbatim>\<open>try\<close> block of \<^verbatim>\<open>generate_response\<close>;
  the logger calls do not change the returned value and are left out.
\<close>

definition build_payload :: "ollama_service \<Rightarrow> string \<Rightarrow> string option \<Rightarrow> generate_payload" where
  "build_payload svc prompt image_base64 =
     (let payload = \<lparr>p_model = model_name svc, p_prompt = prompt, p_stream = False,
                      p_temperature = temperature svc, p_top_p = top_p svc,
                      p_num_predict = max_tokens svc, p_images = None\<rparr>
      in case image_base64 of
           None \<Rightarrow> payload
         | Some img \<Rightarrow> if img = [] then payload else payload\<lparr>p_images := Some [img]\<rparr>)"

definition generate_response_body ::
  "ollama_service \<Rightarrow> requests_post \<Rightarrow> string \<Rightarrow> string option \<Rightarrow> py_exception + string" where
  "generate_response_body svc post prompt image_base64 =
     (case post (base_url svc @ ''/api/generate'') (build_payload svc prompt image_base64) of
        Inl e \<Rightarrow> Inl e
      | Inr response \<Rightarrow>
          if status_code response = 200 then
            (case json response of
               Inl e \<Rightarrow> Inl e
             | Inr result \<Rightarrow> Inr (case result of None \<Rightarrow> [] | Some content \<Rightarrow> content))
          else Inr (''Error generating response: HTTP '' @ show_int (status_code response)))"

definition generate_response ::
  "ollama_service \<Rightarrow> requests_post \<Rightarrow> string \<Rightarrow> string option \<Rightarrow> string" where
  "generate_response svc post prompt image_base64 =
     (case generate_response_body svc post prompt image_base64 of
        Inr content \<Rightarrow> content
      | Inl e \<Rightarrow> ''Error generating response: '' @ message e)"

text \<open>The loop that builds \<^verbatim>\<open>items_list\<close>, one bullet for each row of \<^verbatim>\<open>all_items\<close>.\<close>

definition item_info :: "row \<Rightarrow> string" where
  "item_info item =
     (let info = ''* '' @ str_cell (row_get item ''Item Name'' (PyStr ''Unknown Item''));
          info = (case map_of item ''Price'' of
                    Some v \<Rightarrow> if notna v then info @ '' - Price: '' @ str_cell v else info
                  | None \<Rightarrow> info);
          info = (case map_of item ''Brand'' of
                    Some v \<Rightarrow> if notna v then info @ '' - Brand: '' @ str_cell v else info
                  | None \<Rightarrow> info);
          info = (case map_of item ''Image URL'' of
                    Some v \<Rightarrow> if notna v then info @ '' - [View Image]('' @ str_cell v @ '')''
                              else info
                  | None \<Rightarrow> info)
      in info)"

fun items_loop :: "dataframe \<Rightarrow> string list \<Rightarrow> string list" where
  "items_loop [] items_list = items_list"
| "items_loop (item # rest) items_list = items_loop rest (items_list @ [item_info item])"

definition items_text :: "dataframe \<Rightarrow> string" where
  "items_text all_items = join ''\<newline>'' (items_loop all_items [])"

definition match_quality :: "pyfloat \<Rightarrow> pyfloat \<Rightarrow> string" where
  "match_quality similarity_score threshold =
     (if float_ge similarity_score threshold then ''excellent match'' else ''similar item'')"

definition confidence :: "pyfloat \<Rightarrow> pyfloat \<Rightarrow> string" where
  "confidence similarity_score threshold =
     (if float_ge similarity_score threshold then ''high confidence''
      else ''moderate confidence'')"

definition fashion_prompt :: "string \<Rightarrow> string \<Rightarrow> pyfloat \<Rightarrow> row \<Rightarrow> string \<Rightarrow> string" where
  "fashion_prompt quality conf similarity_score matched_row listing =
     ''You are a fashion expert analyzing a user's uploaded image. \<newline>\<newline>The user's image has been matched with '' @
     quality @
     '' in our database with '' @
     conf @
     '' (similarity score: '' @
     fmt_2f similarity_score @
     '').\<newline>\<newline>MATCHED ITEM DETAILS:\<newline>- Item Name: '' @
     str_cell (row_get matched_row ''Item Name'' (PyStr ''Unknown'')) @
     ''\<newline>- Brand: '' @
     str_cell (row_get matched_row ''Brand'' (PyStr ''Unknown'')) @
     ''\<newline>- Price: '' @
     str_cell (row_get matched_row ''Price'' (PyStr ''Unknown'')) @
     ''\<newline>- Category: '' @
     str_cell (row_get matched_row ''Category'' (PyStr ''Unknown'')) @
     ''\<newline>\<newline>RELATED ITEMS IN DATABASE:\<newline>'' @
     listing @
     ''\<newline>\<newline>Please provide a detailed fashion analysis including:\<newline>1. Description of the main item in the user's image\<newline>2. Style analysis (colors, patterns, fit, occasion)\<newline>3. Fashion recommendations and styling tips\<newline>4. Similar alternatives from our database\<newline>\<newline>Keep the response informative, engaging, and fashion-focused. Use markdown formatting for better readability.''"

definition fallback_response :: "string \<Rightarrow> row \<Rightarrow> pyfloat \<Rightarrow> string \<Rightarrow> string" where
  "fallback_response quality matched_row similarity_score listing =
     ''## Fashion Analysis Results\<newline>\<newline>Based on your image, I've identified a '' @
     quality @
     '' in our database:\<newline>\<newline>**Matched Item:** '' @
     str_cell (row_get matched_row ''Item Name'' (PyStr ''Unknown'')) @
     ''\<newline>**Brand:** '' @
     str_cell (row_get matched_row ''Brand'' (PyStr ''Unknown'')) @
     ''\<newline>**Price:** '' @
     str_cell (row_get matched_row ''Price'' (PyStr ''Unknown'')) @
     ''\<newline>**Similarity Score:** '' @
     fmt_2f similarity_score @
     ''\<newline>\<newline>## Related Items Found\<newline>\<newline>'' @
     listing @
     ''\<newline>\<newline>*Note: The AI analysis was incomplete, but here are the items we found in our database that match your image.*''"

text \<open>
  The body of the \<^verbatim>\<open>try\<close> block of \<^verbatim>\<open>generate_fashion_response\<close>, and the function with
  its \<^verbatim>\<open>except Exception\<close> clause.
\<close>

definition generate_fashion_response_body ::
  "ollama_service \<Rightarrow> requests_post \<Rightarrow> string option \<Rightarrow> row \<Rightarrow> dataframe \<Rightarrow> pyfloat \<Rightarrow> pyfloat
     \<Rightarrow> py_exception + string" where
  "generate_fashion_response_body svc post user_image_base64 matched_row all_items
       similarity_score threshold =
     (let listing = items_text all_items;
          quality = match_quality similarity_score threshold;
          conf = confidence similarity_score threshold;
          prompt = fashion_prompt quality conf similarity_score matched_row listing;
          response = generate_response svc post prompt user_image_base64;
          response = (if response = [] \<or> length (strip response) < 100
                      then fallback_response quality matched_row similarity_score listing
                      else response);
          response = (if \<not> sublist ''RELATED ITEMS'' response
                           \<and> \<not> sublist ''Related Items'' response
                      then response @ ''\<newline>\<newline>## Related Items Found\<newline>\<newline>'' @ listing
                      else response)
      in Inr response)"

definition generate_fashion_response ::
  "ollama_service \<Rightarrow> requests_post \<Rightarrow> string option \<Rightarrow> row \<Rightarrow> dataframe \<Rightarrow> pyfloat \<Rightarrow> pyfloat
     \<Rightarrow> string" where
  "generate_fashion_response svc post user_image_base64 matched_row all_items
       similarity_score threshold =
     (case generate_fashion_response_body svc post user_image_base64 matched_row all_items
             similarity_score threshold of
        Inr response \<Rightarrow> response
      | Inl e \<Rightarrow> ''Error generating fashion analysis: '' @ message e)"

text \<open>The default of the \<^verbatim>\<open>threshold\<close> parameter, and \<^verbatim>\<open>config.SIMILARITY_THRESHOLD\<close>.\<close>

definition threshold_default :: pyfloat where
  "threshold_default = Fin (8 / 10)"

definition SIMILARITY_THRESHOLD :: pyfloat where
  "SIMILARITY_THRESHOLD = Fin (8 / 10)"

text \<open>The service as \<^verbatim>\<open>StyleFinderApp\<close> configures it from \<^verbatim>\<open>config.py\<close>.\<close>

definition config_service :: ollama_service where
  "config_service =
     \<lparr>model_name = ''llama3.2:3b'', base_url = ''http://localhost:11434'',
      temperature = 2 / 10, top_p = 6 / 10, max_tokens = 2000\<rparr>"

subsection \<open>The listing as the specification words it\<close>

text \<open>
  The specification's bullet: the name, then price, brand and link, each only when the
  field is present and non-null; an absent field contributes no text at all.
\<close>

definition optional_field :: "row \<Rightarrow> string \<Rightarrow> string \<Rightarrow> string \<Rightarrow> string" where
  "optional_field item k before after =
     (case map_of item k of
        None \<Rightarrow> []
      | Some v \<Rightarrow> if notna v then before @ str_cell v @ after else [])"

definition bullet :: "row \<Rightarrow> string" where
  "bullet item =
     ''* '' @ str_cell (row_get item ''Item Name'' (PyStr ''Unknown Item''))
       @ optional_field item ''Price'' '' - Price: '' []
       @ optional_field item ''Brand'' '' - Brand: '' []
       @ optional_field item ''Image URL'' '' - [View Image]('' '')''"

subsection \<open>Sample inputs\<close>

definition blazer_row :: row where
  "blazer_row =
     [(''Item Name'', PyStr ''Elegant Blazer''), (''Brand'', PyStr ''Fashion House''),
      (''Price'', PyStr ''$299''), (''Category'', PyStr ''Blazer''),
      (''Image URL'', PyStr ''http://example.com/blazer.jpg'')]"

definition shirt_row :: row where
  "shirt_row = [(''Item Name'', PyStr ''Classic Shirt''), (''Price'', PyNaN)]"

text \<open>A backend whose request times out, with the message \<^verbatim>\<open>requests\<close> gives.\<close>

definition timeout_message :: string where
  "timeout_message =
     ''HTTPConnectionPool(host='localhost', port=11434): Read timed out. (read timeout=60)''"

definition timeout_post :: requests_post where
  "timeout_post url payload = Inl (PyException timeout_message)"



definition empty_post :: requests_post where
  "empty_post url payload = Inr (HttpResponse 200 [] (Inr (Some [])))"

text \<open>A backend that answers with a few words, and one that hands the prompt back.\<close>

definition terse_post :: requests_post where
  "terse_post url payload = Inr (HttpResponse 200 [] (Inr (Some ''  Nice blazer.  '')))"

definition echo_post :: requests_post where
  "echo_post url payload = Inr (HttpResponse 200 [] (Inr (Some (p_prompt payload))))"



definition unavailable_post :: requests_post where
  "unavailable_post url payload =
     Inr (HttpResponse 503 ''Service Unavailable'' (Inl (PyException ''Expecting value'')))"

section \<open>app.py\<close>

text \<open>
  What \<^verbatim>\<open>process_image\<close> may be handed: an object with a \<^verbatim>\<open>name\<close> attribute, a string, a
  list, or anything else (\<^verbatim>\<open>None\<close>, a number, a dictionary).  A path value is a string or,
  when the first element of a list is neither a file object nor a string, some other
  object, kept as the text \<^verbatim>\<open>str\<close> gives for it.
\<close>

datatype path_value = PathStr string | PathObj string

fun str_path :: "path_value \<Rightarrow> string" where
  "str_path (PathStr s) = s"
| "str_path (PathObj s) = s"

datatype file_item = ItemFile string | ItemValue path_value

datatype image_input = FileObject string | PathString string | FileList "file_item list" | OtherInput

fun resolve_image :: "image_input \<Rightarrow> path_value option" where
  "resolve_image (FileObject n) = Some (PathStr n)"
| "resolve_image (PathString s) = Some (PathStr s)"
| "resolve_image (FileList []) = None"
| "resolve_image (FileList (ItemFile n # rest)) = Some (PathStr n)"
| "resolve_image (FileList (ItemValue v # rest)) = Some v"
| "resolve_image OtherInput = None"

text \<open>
  The dictionary \<^verbatim>\<open>encode_image\<close> returns: the vector (or \<^verbatim>\<open>None\<close>), the base64 text, and
  the \<^verbatim>\<open>error\<close> entry, which may be missing.
\<close>

record encoding =
  enc_vector :: "real list option"
  enc_base64 :: "string option"
  enc_error :: "cell option"

text \<open>
  What \<^verbatim>\<open>self.data\<close> holds is whatever was unpickled, or the dummy frame.  A
  \<^verbatim>\<open>DataFrame\<close> is its column labels and its rows, each row the cells in column order, a
  cell being text or an embedding vector.  Any other object is kept as the text \<^verbatim>\<open>str\<close>
  gives for it, together with what reading its \<^verbatim>\<open>empty\<close> attribute and testing it gives:
  an \<^verbatim>\<open>AttributeError\<close> for an object without one.
\<close>

datatype frame_cell = TextCell cell | VectorCell "real list"

datatype dataset =
    Frame "string list" "frame_cell list list"
  | NonFrame string "py_exception + bool"

text \<open>\<^verbatim>\<open>DataFrame.empty\<close>: true when either axis has length zero.\<close>

fun dataset_empty :: "dataset \<Rightarrow> py_exception + bool" where
  "dataset_empty (Frame cols rows) = Inr (cols = [] \<or> rows = [])"
| "dataset_empty (NonFrame shown outcome) = outcome"

text \<open>
  The same test on the frame of related items, which is kept as the list of its rows: it
  has no rows, or its rows have no cells because it has no columns.
\<close>

definition frame_empty :: "dataframe \<Rightarrow> bool" where
  "frame_empty all_items = list_all (\<lambda>r. r = []) all_items"

record style_finder_app =
  data :: dataset
  llm_service :: ollama_service

text \<open>
  What the pipeline does to the outside, in order: the lines it prints and the calls it
  makes to its collaborators.
\<close>

datatype event =
    Print string
  | PrintExc
  | CallExists path_value
  | CallEncode path_value
  | CallMatch "real list"
  | CallGroup cell
  | CallSynthesize row dataframe
  | CallUnlink path_value
  | CallProcessResponse string

text \<open>
  The collaborators that are not part of \<^verbatim>\<open>app.py\<close> and \<^verbatim>\<open>llm_service.py\<close>: the file
  system, \<^verbatim>\<open>ImageProcessor\<close> (its constructor, \<^verbatim>\<open>encode_image\<close> and
  \<^verbatim>\<open>find_closest_match\<close>), the helpers \<^verbatim>\<open>get_all_items_for_image\<close> and
  \<^verbatim>\<open>process_response\<close>, the HTTP client, \<^verbatim>\<open>pd.read_pickle\<close> and the random source of
  \<^verbatim>\<open>np.random.random\<close>.  Each is a parameter, and each call may raise.
  \<open>find_closest_match\<close> gives \<open>None\<close> when the row it returns is \<^verbatim>\<open>None\<close>.
\<close>

record environment =
  os_path_exists :: "path_value \<Rightarrow> py_exception + bool"
  encode_image :: "path_value \<Rightarrow> py_exception + encoding"
  find_closest_match :: "real list \<Rightarrow> dataset \<Rightarrow> py_exception + (row \<times> pyfloat) option"
  get_all_items_for_image :: "cell \<Rightarrow> dataset \<Rightarrow> py_exception + dataframe option"
  http_post :: requests_post
  os_unlink :: "path_value \<Rightarrow> py_exception + unit"
  process_response :: "string \<Rightarrow> py_exception + string"
  read_pickle :: "string \<Rightarrow> py_exception + dataset"
  random_stream :: "nat \<Rightarrow> real"
  image_processor_init :: "py_exception + unit"

subsection \<open>\<^verbatim>\<open>StyleFinderApp.process_image\<close>\<close>

definition shape_str :: "real list \<Rightarrow> string" where
  "shape_str v = ''('' @ show_nat (length v) @ '',)''"

definition single_item_frame :: "row \<Rightarrow> dataframe" where
  "single_item_frame closest_row =
     [[(''Item Name'', row_get closest_row ''Item Name'' (PyStr ''Fashion Item'')),
       (''Brand'', row_get closest_row ''Brand'' (PyStr ''Unknown'')),
       (''Price'', row_get closest_row ''Price'' (PyStr ''N/A'')),
       (''Category'', row_get closest_row ''Category'' (PyStr ''Fashion'')),
       (''Image URL'', row_get closest_row ''Image URL'' (PyStr []))]]"

text \<open>
  Lines 133 to 138: for an object whose \<^verbatim>\<open>name\<close> starts with \<^verbatim>\<open>/tmp/\<close> the file is
  unlinked, and whatever \<^verbatim>\<open>os.unlink\<close> raises is dropped by \<^verbatim>\<open>except: pass\<close>.
\<close>

definition cleanup :: "environment \<Rightarrow> image_input \<Rightarrow> path_value \<Rightarrow> event list \<Rightarrow> event list" where
  "cleanup env upload image_path tr =
     (case upload of
        FileObject n \<Rightarrow>
          if prefix ''/tmp/'' n then
            (case os_unlink env image_path of
               Inr u \<Rightarrow> tr @ [CallUnlink image_path]
             | Inl e \<Rightarrow> tr @ [CallUnlink image_path])
          else tr
      | _ \<Rightarrow> tr)"

text \<open>Step 4, the cleanup and the return; \<open>tr\<close> is what has happened so far.\<close>

definition synthesize_stage ::
  "environment \<Rightarrow> style_finder_app \<Rightarrow> image_input \<Rightarrow> path_value \<Rightarrow> encoding \<Rightarrow> row \<Rightarrow> pyfloat
     \<Rightarrow> dataframe \<Rightarrow> event list \<Rightarrow> (py_exception + string) \<times> event list" where
  "synthesize_stage env app upload image_path user_encoding closest_row similarity_score
       all_items tr =
     (let tr = tr @ [CallSynthesize closest_row all_items];
          bot_response =
            generate_fashion_response (llm_service app) (http_post env)
              (enc_base64 user_encoding) closest_row all_items similarity_score
              SIMILARITY_THRESHOLD;
          tr = cleanup env upload image_path tr;
          tr = tr @ [CallProcessResponse bot_response]
      in case process_response env bot_response of
           Inl e \<Rightarrow> (Inl e, tr)
         | Inr r \<Rightarrow> (Inr r, tr))"

text \<open>Step 3.\<close>

definition group_stage ::
  "environment \<Rightarrow> style_finder_app \<Rightarrow> image_input \<Rightarrow> path_value \<Rightarrow> encoding \<Rightarrow> row \<Rightarrow> pyfloat
     \<Rightarrow> event list \<Rightarrow> (py_exception + string) \<times> event list" where
  "group_stage env app upload image_path user_encoding closest_row similarity_score tr =
     (let url = row_get closest_row ''Image URL'' (PyStr []);
          tr = tr @ [CallGroup url]
      in case get_all_items_for_image env url (data app) of
           Inl e \<Rightarrow> (Inl e, tr)
         | Inr found \<Rightarrow>
             if (case found of None \<Rightarrow> True | Some all_items \<Rightarrow> frame_empty all_items) then
               synthesize_stage env app upload image_path user_encoding closest_row
                 similarity_score (single_item_frame closest_row)
                 (tr @ [Print ''Using single matched item as no related items found.''])
             else
               synthesize_stage env app upload image_path user_encoding closest_row
                 similarity_score (the found) tr)"

text \<open>Step 2, with the line that prints the name of the match.\<close>

definition match_stage ::
  "environment \<Rightarrow> style_finder_app \<Rightarrow> image_input \<Rightarrow> path_value \<Rightarrow> encoding \<Rightarrow> real list
     \<Rightarrow> event list \<Rightarrow> (py_exception + string) \<times> event list" where
  "match_stage env app upload image_path user_encoding v tr =
     (let tr = tr @ [CallMatch v]
      in case find_closest_match env v (data app) of
           Inl e \<Rightarrow> (Inl e, tr)
         | Inr None \<Rightarrow>
             (Inr ''Error: Unable to find a match. Please try another image.'',
              tr @ [Print ''No closest match found in dataset''])
         | Inr (Some (closest_row, similarity_score)) \<Rightarrow>
             (case row_item closest_row ''Item Name'' of
                Inl e \<Rightarrow> (Inl e, tr)
              | Inr item_name \<Rightarrow>
                  group_stage env app upload image_path user_encoding closest_row
                    similarity_score
                    (tr @ [Print (''Closest match: '' @ str_cell item_name
                                  @ '' with similarity score '' @ fmt_2f similarity_score)])))"

text \<open>The body of the \<^verbatim>\<open>try\<close> block: resolving the input, the existence check, step 1.\<close>

definition process_image_body ::
  "environment \<Rightarrow> style_finder_app \<Rightarrow> image_input \<Rightarrow> (py_exception + string) \<times> event list" where
  "process_image_body env app upload =
     (case resolve_image upload of
        None \<Rightarrow> (Inr ''Error: Invalid image format received'', [])
      | Some image_path \<Rightarrow>
          (let tr = [Print (''Processing image: '' @ str_path image_path),
                     CallExists image_path]
           in case os_path_exists env image_path of
                Inl e \<Rightarrow> (Inl e, tr)
              | Inr found \<Rightarrow>
                  if \<not> found then
                    (Inr (''Error: Image file not found at '' @ str_path image_path), tr)
                  else
                    (let tr = tr @ [CallEncode image_path]
                     in case encode_image env image_path of
                          Inl e \<Rightarrow> (Inl e, tr)
                        | Inr user_encoding \<Rightarrow>
                            (case enc_vector user_encoding of
                               None \<Rightarrow>
                                 (let error_msg =
                                        (case enc_error user_encoding of
                                           None \<Rightarrow> PyStr ''Unable to process the image. Please try another image.''
                                         | Some m \<Rightarrow> m)
                                  in (Inr (''Error: '' @ str_cell error_msg),
                                      tr @ [Print (''Image encoding failed: ''
                                                   @ str_cell error_msg)]))
                             | Some v \<Rightarrow>
                                 match_stage env app upload image_path user_encoding v
                                   (tr @ [Print (''Image encoded successfully. Vector shape: ''
                                                 @ shape_str v)])))))"

text \<open>The function with its \<^verbatim>\<open>except Exception\<close> clause.\<close>

definition process_image ::
  "environment \<Rightarrow> style_finder_app \<Rightarrow> image_input \<Rightarrow> (py_exception + string) \<times> event list" where
  "process_image env app upload =
     (case process_image_body env app upload of
        (Inr r, tr) \<Rightarrow> (Inr r, tr)
      | (Inl e, tr) \<Rightarrow>
          (Inr (''Error processing image: '' @ message e),
           tr @ [Print (''Error in process_image: '' @ message e), PrintExc]))"

subsection \<open>\<^verbatim>\<open>StyleFinderApp.__init__\<close>\<close>

text \<open>
  \<^verbatim>\<open>np.random.random(1000)\<close>, called \<open>k\<close> times: each call takes the next 1000 values of
  the random stream.
\<close>

fun random_embeddings :: "(nat \<Rightarrow> real) \<Rightarrow> nat \<Rightarrow> nat \<Rightarrow> real list list" where
  "random_embeddings rnd pos 0 = []"
| "random_embeddings rnd pos (Suc k) =
     map rnd [pos..<pos + 1000] # random_embeddings rnd (pos + 1000) k"

text \<open>
  The dummy frame, built as the source does from its columns: row \<open>i\<close> holds the \<open>i\<close>-th
  entry of every column.
\<close>

definition frame_of_columns :: "nat \<Rightarrow> (string \<times> frame_cell list) list \<Rightarrow> dataset" where
  "frame_of_columns n cols =
     Frame (map fst cols) (map (\<lambda>i. map (\<lambda>c. snd c ! i) cols) [0..<n])"

definition text_column :: "string list \<Rightarrow> frame_cell list" where
  "text_column values = map (\<lambda>v. TextCell (PyStr v)) values"

definition dummy_dataset :: "(nat \<Rightarrow> real) \<Rightarrow> dataset" where
  "dummy_dataset rnd =
     frame_of_columns 3
       [(''Item Name'', text_column [''Elegant Blazer'', ''Classic Shirt'', ''Designer Dress'']),
        (''Brand'', text_column [''Fashion House'', ''Style Co.'', ''Trendy Brand'']),
        (''Price'', text_column [''$299'', ''$89'', ''$199'']),
        (''Category'', text_column [''Blazer'', ''Shirt'', ''Dress'']),
        (''Image URL'',
         text_column [''http://example.com/blazer.jpg'', ''http://example.com/shirt.jpg'',
                      ''http://example.com/dress.jpg'']),
        (''Embedding'', map VectorCell (random_embeddings rnd 0 3))]"

definition dummy_branch ::
  "environment \<Rightarrow> string \<Rightarrow> (py_exception + dataset) \<times> event list" where
  "dummy_branch env shown =
     (Inr (dummy_dataset (random_stream env)),
      [Print (''Warning: Dataset file not found at '' @ shown
              @ ''. Creating dummy dataset for testing.'')])"

text \<open>Lines 32 to 48: the dataset is loaded, or the dummy one is made.\<close>

definition load_data ::
  "environment \<Rightarrow> string option \<Rightarrow> (py_exception + dataset) \<times> event list" where
  "load_data env dataset_path =
     (case dataset_path of
        None \<Rightarrow> dummy_branch env ''None''
      | Some p \<Rightarrow>
          if p = [] then dummy_branch env p
          else
            (case os_path_exists env (PathStr p) of
               Inl e \<Rightarrow> (Inl e, [])
             | Inr found \<Rightarrow>
                 if found then
                   (case read_pickle env p of
                      Inl e \<Rightarrow> (Inl e, [])
                    | Inr loaded \<Rightarrow>
                        (case dataset_empty loaded of
                           Inl e \<Rightarrow> (Inl e, [])
                         | Inr is_empty \<Rightarrow>
                             if is_empty then
                               (Inl (PyException ''The loaded dataset is empty''), [])
                             else (Inr loaded, [])))
                 else dummy_branch env p))"

text \<open>
  The constructor: the data, then the two components.  \<^verbatim>\<open>OllamaService.__init__\<close> stores
  its arguments (the configured model and URL, the default sampling parameters) and tests
  the connection inside a \<^verbatim>\<open>try\<close> that catches everything, so it cannot raise.
\<close>

definition style_finder_app_init ::
  "environment \<Rightarrow> string option \<Rightarrow> (py_exception + style_finder_app) \<times> event list" where
  "style_finder_app_init env dataset_path =
     (case load_data env dataset_path of
        (Inl e, tr) \<Rightarrow> (Inl e, tr)
      | (Inr d, tr) \<Rightarrow>
          (case image_processor_init env of
             Inl e \<Rightarrow> (Inl e, tr)
           | Inr u \<Rightarrow> (Inr \<lparr>data = d, llm_service = config_service\<rparr>, tr)))"

subsection \<open>Sample collaborators\<close>

definition sample_encoding :: encoding where
  "sample_encoding = \<lparr>enc_vector = Some [1, 0], enc_base64 = Some ''aGk='', enc_error = None\<rparr>"

definition failed_encoding :: encoding where
  "failed_encoding =
     \<lparr>enc_vector = None, enc_base64 = None,
      enc_error = Some (PyStr ''cannot identify image file'')\<rparr>"

definition nameless_row :: row where
  "nameless_row = [(''Brand'', PyStr ''Style Co.''), (''Price'', PyStr ''$89'')]"

text \<open>
  Every collaborator succeeds: the file exists, the image encodes, the match is the
  blazer, the helper finds no related rows, the backend answers with empty text.
\<close>

definition sample_env :: environment where
  "sample_env =
     \<lparr>os_path_exists = (\<lambda>p. Inr True),
      encode_image = (\<lambda>p. Inr sample_encoding),
      find_closest_match = (\<lambda>v d. Inr (Some (blazer_row, Fin 1))),
      get_all_items_for_image = (\<lambda>u d. Inr None),
      http_post = empty_post,
      os_unlink = (\<lambda>p. Inr ()),
      process_response = (\<lambda>r. Inr r),
      read_pickle = (\<lambda>p. Inr (Frame [''Item Name'', ''Embedding''] [])),
      random_stream = (\<lambda>n. 0),
      image_processor_init = Inr ()\<rparr>"

definition missing_file_env :: environment where
  "missing_file_env = sample_env\<lparr>os_path_exists := \<lambda>p. Inr False\<rparr>"

definition failed_encoding_env :: environment where
  "failed_encoding_env = sample_env\<lparr>encode_image := \<lambda>p. Inr failed_encoding\<rparr>"

definition no_match_env :: environment where
  "no_match_env = sample_env\<lparr>find_closest_match := \<lambda>v d. Inr None\<rparr>"

definition nameless_match_env :: environment where
  "nameless_match_env =
     sample_env\<lparr>find_closest_match := \<lambda>v d. Inr (Some (nameless_row, Fin 1))\<rparr>"

definition unlink_fails_env :: environment where
  "unlink_fails_env =
     sample_env\<lparr>os_unlink := \<lambda>p. Inl (PyException ''[Errno 13] Permission denied'')\<rparr>"

definition corrupt_file_env :: environment where
  "corrupt_file_env = sample_env\<lparr>read_pickle := \<lambda>p. Inl (PyException ''invalid load key'')\<rparr>"

definition blazer_frame :: dataset where
  "blazer_frame =
     Frame [''Item Name'', ''Embedding''] [[TextCell (PyStr ''Elegant Blazer''), VectorCell [1, 0]]]"

definition populated_file_env :: environment where
  "populated_file_env = sample_env\<lparr>read_pickle := \<lambda>p. Inr blazer_frame\<rparr>"

text \<open>A pickled frame of three rows without columns, and a pickled dictionary.\<close>

definition columnless_file_env :: environment where
  "columnless_file_env = sample_env\<lparr>read_pickle := \<lambda>p. Inr (Frame [] [[], [], []])\<rparr>"

definition attribute_error :: py_exception where
  "attribute_error = PyException (CHR 0x27 # ''dict' object has no attribute 'empty'' @ [CHR 0x27])"

definition dictionary_file_env :: environment where
  "dictionary_file_env =
     sample_env\<lparr>read_pickle := \<lambda>p. Inr (NonFrame ''{}'' (Inl attribute_error))\<rparr>"

definition broken_processor_env :: environment where
  "broken_processor_env =
     sample_env\<lparr>image_processor_init := Inl (PyException ''model weights not found'')\<rparr>"

definition sample_app :: style_finder_app where
  "sample_app = \<lparr>data = blazer_frame, llm_service = config_service\<rparr>"

section \<open>The similarity matcher\<close>

text \<open>
  \<^verbatim>\<open>ImageProcessor.find_closest_match\<close> belongs to \<^verbatim>\<open>models/image_processor.py\<close>, whose
  source is not part of this development, so the matcher is written down from section 4.1
  of the specification.  Scores are real numbers here, so a score that floating point
  gives as about 1.0 is exactly 1.
\<close>

text \<open>
  Modelled from the spec: the \<^verbatim>\<open>CatalogStore\<close> the missing \<^verbatim>\<open>find_closest_match\<close> scans,
  an ordered collection of entries, each the fields of a catalog entry with its embedding.
\<close>

type_synonym catalog = "(row \<times> real list) list"

text \<open>
  Modelled from the spec: the dot product and the norm of the missing
  \<^verbatim>\<open>find_closest_match\<close>, as in \<^verbatim>\<open>dot(query, e) / (norm(query) * norm(e))\<close>.
\<close>

definition dot :: "real list \<Rightarrow> real list \<Rightarrow> real" where
  "dot xs ys = sum_list (map2 (*) xs ys)"

definition vec_norm :: "real list \<Rightarrow> real" where
  "vec_norm v = sqrt (dot v v)"

text \<open>
  Modelled from the spec: the similarity computed by the missing \<^verbatim>\<open>find_closest_match\<close>,
  the cosine of the two vectors, and the minimum possible value \<open>-1\<close> when either vector
  has norm zero.
\<close>

definition cosine_similarity :: "real list \<Rightarrow> real list \<Rightarrow> real" where
  "cosine_similarity q e =
     (if vec_norm q = 0 \<or> vec_norm e = 0 then - 1
      else dot q e / (vec_norm q * vec_norm e))"

text \<open>
  Modelled from the spec: the selection of the missing \<^verbatim>\<open>find_closest_match\<close>, an argmax
  with first-index tie-break.  \<open>bi\<close> and \<open>bs\<close> are the index and score of the best entry
  so far, \<open>i\<close> is the index of the next score; only a strictly larger score replaces the
  best one.
\<close>

fun best_from :: "nat \<Rightarrow> real \<Rightarrow> nat \<Rightarrow> real list \<Rightarrow> nat \<times> real" where
  "best_from bi bs i [] = (bi, bs)"
| "best_from bi bs i (s # ss) =
     (if bs < s then best_from i s (Suc i) ss else best_from bi bs (Suc i) ss)"

datatype match_error = NotFound | DimensionMismatch

text \<open>
  Modelled from the spec: \<^verbatim>\<open>SimilarityMatcher.match\<close>, standing for the missing
  \<^verbatim>\<open>find_closest_match\<close>.  An empty store gives \<open>NotFound\<close>, an entry whose dimension
  differs from the query's gives \<open>DimensionMismatch\<close>, otherwise the result is the entry
  the scan selects, with its similarity.
\<close>

definition matcher_match ::
  "real list \<Rightarrow> catalog \<Rightarrow> match_error + ((row \<times> real list) \<times> real)" where
  "matcher_match query store =
     (case map (\<lambda>e. cosine_similarity query (snd e)) store of
        [] \<Rightarrow> Inl NotFound
      | s # ss \<Rightarrow>
          if list_ex (\<lambda>e. length (snd e) \<noteq> length query) store then Inl DimensionMismatch
          else (case best_from 0 s 1 ss of (i, score) \<Rightarrow> Inr (store ! i, score)))"

definition twin_store :: catalog where
  "twin_store = [(blazer_row, [1, 0]), (shirt_row, [1, 0])]"

definition three_store :: catalog where
  "three_store = [(blazer_row, [1, 0, 0]), (shirt_row, [0, 1, 0]), (nameless_row, [0, 0, 1])]"

section \<open>Properties of the response synthesizer\<close>

lemma items_loop_append: "items_loop xs acc = acc @ map item_info xs"
  by (induction xs arbitrary: acc) simp_all

lemma item_info_bullet: "item_info item = bullet item"
  by (simp add: item_info_def bullet_def optional_field_def Let_def split: option.splits)

lemma length_strip_le: "length (strip s) \<le> length s"
proof -
  have "length (strip s) \<le> length (dropWhile is_space s)"
    unfolding strip_def using length_dropWhile_le [of is_space "rev (dropWhile is_space s)"] by simp
  also have "\<dots> \<le> length s" by (rule length_dropWhile_le)
  finally show ?thesis .
qed

lemma sublist_appR: "sublist xs zs \<Longrightarrow> sublist xs (ys @ zs)"
  by (simp add: sublist_append)

lemma sublist_appL: "sublist xs ys \<Longrightarrow> sublist xs (ys @ zs)"
  by (simp add: sublist_append)

lemma header_in_fallback:
  "sublist ''Related Items'' (fallback_response q r s l)"
proof -
  have h: "sublist ''Related Items'' ''\<newline>\<newline>## Related Items Found\<newline>\<newline>''"
    by (simp add: sublist_Cons_right)
  show ?thesis
    unfolding fallback_response_def
    by (intro sublist_appR sublist_appL [OF h])
qed

lemma fallback_contains:
  "sublist (str_cell (row_get r ''Item Name'' (PyStr ''Unknown''))) (fallback_response q r s l)"
  "sublist (str_cell (row_get r ''Price'' (PyStr ''Unknown''))) (fallback_response q r s l)"
  "sublist (fmt_2f s) (fallback_response q r s l)"
  "sublist l (fallback_response q r s l)"
  unfolding fallback_response_def
  by (intro sublist_appR sublist_append_rightI)+


lemma gfr_unfold:
  "generate_fashion_response svc post img row items s t =
     (let g = generate_response svc post
                (fashion_prompt (match_quality s t) (confidence s t) s row (items_text items)) img;
          r = (if g = [] \<or> length (strip g) < 100
               then fallback_response (match_quality s t) row s (items_text items) else g)
      in if \<not> sublist ''RELATED ITEMS'' r \<and> \<not> sublist ''Related Items'' r
         then r @ ''\<newline>\<newline>## Related Items Found\<newline>\<newline>'' @ items_text items else r)"
  by (simp add: generate_fashion_response_def generate_fashion_response_body_def Let_def)

lemma gfr_short:
  assumes "g = generate_response svc post
                (fashion_prompt (match_quality s t) (confidence s t) s row (items_text items)) img"
    and "g = [] \<or> length (strip g) < 100"
  shows "generate_fashion_response svc post img row items s t =
           fallback_response (match_quality s t) row s (items_text items)"
  using assms header_in_fallback [of "match_quality s t" row s "items_text items"]
  by (simp add: gfr_unfold Let_def)

lemma gfr_long:
  assumes "g = generate_response svc post
                (fashion_prompt (match_quality s t) (confidence s t) s row (items_text items)) img"
    and "100 \<le> length (strip g)"
  shows "generate_fashion_response svc post img row items s t =
           (if \<not> sublist ''RELATED ITEMS'' g \<and> \<not> sublist ''Related Items'' g
            then g @ ''\<newline>\<newline>## Related Items Found\<newline>\<newline>'' @ items_text items else g)"
proof -
  from assms(2) have "g \<noteq> []" by (auto simp: strip_def)
  with assms show ?thesis by (simp add: gfr_unfold Let_def)
qed

lemma empty_post_response: "generate_response config_service empty_post p img = []"
  by (simp add: generate_response_def generate_response_body_def empty_post_def)




lemma prompt_of_payload: "p_prompt (build_payload svc P img) = P"
  by (simp add: build_payload_def Let_def split: option.splits)

lemma item_info_eq_bullet: "item_info = bullet"
  by (rule ext) (rule item_info_bullet)

text \<open>
  Claim C7.  For every candidate group the listing has one bullet per entry, in group
  order, joined by newlines.  Each bullet is \<^verbatim>\<open>* \<close> and the entry's name, followed by the
  price, the brand and a link built from the image reference, each only when the field is
  present and non-null: an absent or null field contributes no text to the bullet.
\<close>

theorem listing_one_bullet_per_entry:
  "length (items_loop all_items []) = length all_items
   \<and> (\<forall>i<length all_items. items_loop all_items [] ! i = bullet (all_items ! i))
   \<and> items_text all_items = join ''\<newline>'' (map bullet all_items)"
  by (simp add: items_loop_append item_info_eq_bullet items_text_def)

theorem listing_one_bullet_per_entry_witness:
  "(1::nat) < length [blazer_row, shirt_row]
   \<and> items_loop [blazer_row, shirt_row] [] ! 0 =
       ''* Elegant Blazer - Price: $299 - Brand: Fashion House - [View Image](http://example.com/blazer.jpg)''
   \<and> items_loop [blazer_row, shirt_row] [] ! 1 = ''* Classic Shirt''
   \<and> items_text [blazer_row, shirt_row] =
       ''* Elegant Blazer - Price: $299 - Brand: Fashion House - [View Image](http://example.com/blazer.jpg)\<newline>* Classic Shirt''"
proof -
  have b0: "bullet blazer_row =
       ''* Elegant Blazer - Price: $299 - Brand: Fashion House - [View Image](http://example.com/blazer.jpg)''"
    by (simp add: bullet_def optional_field_def row_get_def blazer_row_def)
  have b1: "bullet shirt_row = ''* Classic Shirt''"
    by (simp add: bullet_def optional_field_def row_get_def shirt_row_def)
  have l: "(0::nat) < length [blazer_row, shirt_row]" "(1::nat) < length [blazer_row, shirt_row]"
    by simp_all
  from listing_one_bullet_per_entry [of "[blazer_row, shirt_row]"]
  have i: "\<forall>i<length [blazer_row, shirt_row]. items_loop [blazer_row, shirt_row] [] ! i
             = bullet ([blazer_row, shirt_row] ! i)"
    and t: "items_text [blazer_row, shirt_row] = join ''\<newline>'' (map bullet [blazer_row, shirt_row])"
    by blast+
  from i l have "items_loop [blazer_row, shirt_row] [] ! 0 = bullet blazer_row"
    "items_loop [blazer_row, shirt_row] [] ! 1 = bullet shirt_row"
    by auto
  with t show ?thesis by (simp add: b0 b1)
qed

lemma length_show_nat_lt_1000: "n < 1000 \<Longrightarrow> length (show_nat n) \<le> 3"
proof -
  assume n: "n < 1000"
  have one: "\<And>k. k < 10 \<Longrightarrow> length (show_nat k) = 1"
    by (subst show_nat.simps) simp
  have two: "\<And>k. k < 100 \<Longrightarrow> length (show_nat k) \<le> 2"
  proof -
    fix k :: nat assume "k < 100"
    then have "k div 10 < 10" by simp
    then show "length (show_nat k) \<le> 2"
      by (subst show_nat.simps) (simp add: one)
  qed
  from n have "n div 10 < 100" by simp
  then have "length (show_nat (n div 10)) \<le> 2" by (rule two)
  then show ?thesis by (subst show_nat.simps) (simp add: one)
qed

lemma http_error_text_short:
  assumes "0 \<le> c" "c < 1000"
  shows "length (strip (''Error generating response: HTTP '' @ show_int c)) < 100"
proof -
  from assms have "nat c < 1000" by simp
  then have "length (show_nat (nat c)) \<le> 3" by (rule length_show_nat_lt_1000)
  with assms have "length (''Error generating response: HTTP '' @ show_int c) \<le> 35"
    by (simp add: show_int_def)
  with length_strip_le [of "''Error generating response: HTTP '' @ show_int c"]
  show ?thesis by linarith
qed

lemma generate_response_raised:
  assumes "post (base_url svc @ ''/api/generate'') (build_payload svc P img) = Inl e
           \<or> (\<exists>r. post (base_url svc @ ''/api/generate'') (build_payload svc P img) = Inr r
                  \<and> status_code r = 200 \<and> json r = Inl e)"
  shows "generate_response svc post P img = ''Error generating response: '' @ message e"
  using assms by (auto simp: generate_response_def generate_response_body_def)

lemma generate_response_status:
  assumes "post (base_url svc @ ''/api/generate'') (build_payload svc P img) = Inr r"
    and "status_code r \<noteq> 200"
  shows "generate_response svc post P img =
           ''Error generating response: HTTP '' @ show_int (status_code r)"
  using assms by (simp add: generate_response_def generate_response_body_def)

text \<open>
  Claim C2, as amended.  For every input \<^verbatim>\<open>generate_fashion_response\<close> returns a string and
  raises nothing.  A failure of the generation call (the request raising, or the decoding
  of a 200 answer raising) reaches it as the text \<^verbatim>\<open>Error generating response: \<close> followed by
  the exception's message.  That text is replaced by the fallback report when its stripped
  length is below 100; a longer one is kept as the report, with the related-items section
  appended when it names no such header.  An answer with a status other than 200 (any
  status from 0 to 999) always yields the fallback report.
\<close>

theorem generation_errors_in_band:
  assumes P: "P = fashion_prompt (match_quality s t) (confidence s t) s row (items_text items)"
    and url: "url = base_url svc @ ''/api/generate''"
  shows "generate_fashion_response_body svc post img row items s t
           = Inr (generate_fashion_response svc post img row items s t)
     \<and> (\<forall>e. (post url (build_payload svc P img) = Inl e
              \<or> (\<exists>r. post url (build_payload svc P img) = Inr r
                     \<and> status_code r = 200 \<and> json r = Inl e))
          \<longrightarrow> generate_fashion_response svc post img row items s t =
                (let g = ''Error generating response: '' @ message e
                 in if length (strip g) < 100
                    then fallback_response (match_quality s t) row s (items_text items)
                    else if \<not> sublist ''RELATED ITEMS'' g \<and> \<not> sublist ''Related Items'' g
                    then g @ ''\<newline>\<newline>## Related Items Found\<newline>\<newline>'' @ items_text items
                    else g))
     \<and> (\<forall>r. post url (build_payload svc P img) = Inr r
              \<and> status_code r \<noteq> 200 \<and> 0 \<le> status_code r \<and> status_code r < 1000
          \<longrightarrow> generate_fashion_response svc post img row items s t =
                fallback_response (match_quality s t) row s (items_text items))"
proof (intro conjI allI impI)
  show "generate_fashion_response_body svc post img row items s t
           = Inr (generate_fashion_response svc post img row items s t)"
    by (simp add: generate_fashion_response_def generate_fashion_response_body_def Let_def)
next
  fix e
  assume "post url (build_payload svc P img) = Inl e
              \<or> (\<exists>r. post url (build_payload svc P img) = Inr r
                     \<and> status_code r = 200 \<and> json r = Inl e)"
  then have g: "''Error generating response: '' @ message e = generate_response svc post P img"
    unfolding url by (rule generate_response_raised [symmetric])
  show "generate_fashion_response svc post img row items s t =
                (let g = ''Error generating response: '' @ message e
                 in if length (strip g) < 100
                    then fallback_response (match_quality s t) row s (items_text items)
                    else if \<not> sublist ''RELATED ITEMS'' g \<and> \<not> sublist ''Related Items'' g
                    then g @ ''\<newline>\<newline>## Related Items Found\<newline>\<newline>'' @ items_text items
                    else g)"
  proof (cases "length (strip (''Error generating response: '' @ message e)) < 100")
    case True
    then show ?thesis
      using gfr_short [OF g [unfolded P] disjI2] by (simp add: Let_def)
  next
    case False
    then have "100 \<le> length (strip (''Error generating response: '' @ message e))" by simp
    from gfr_long [OF g [unfolded P] this] False show ?thesis by (simp add: Let_def)
  qed
next
  fix r
  assume a: "post url (build_payload svc P img) = Inr r
              \<and> status_code r \<noteq> 200 \<and> 0 \<le> status_code r \<and> status_code r < 1000"
  then have g: "''Error generating response: HTTP '' @ show_int (status_code r)
                  = generate_response svc post P img"
    unfolding url by (simp add: generate_response_status)
  from a have "0 \<le> status_code r" "status_code r < 1000" by blast+
  then have "length (strip (''Error generating response: HTTP '' @ show_int (status_code r))) < 100"
    by (rule http_error_text_short)
  then show "generate_fashion_response svc post img row items s t =
                fallback_response (match_quality s t) row s (items_text items)"
    using gfr_short [OF g [unfolded P] disjI2] by simp
qed

lemma timeout_text_long: "100 \<le> length (strip (''Error generating response: '' @ timeout_message))"
  by (simp add: strip_def timeout_message_def is_space_def)

lemma timeout_text_no_header:
  "\<not> sublist ''RELATED ITEMS'' (''Error generating response: '' @ timeout_message)"
  "\<not> sublist ''Related Items'' (''Error generating response: '' @ timeout_message)"
  by (simp_all add: timeout_message_def sublist_Cons_right)

theorem generation_errors_in_band_witness:
  "timeout_post (base_url config_service @ ''/api/generate'')
      (build_payload config_service
         (fashion_prompt (match_quality (Fin (9 / 10)) SIMILARITY_THRESHOLD)
            (confidence (Fin (9 / 10)) SIMILARITY_THRESHOLD) (Fin (9 / 10)) blazer_row
            (items_text [blazer_row])) None) = Inl (PyException timeout_message)
   \<and> generate_fashion_response config_service timeout_post None blazer_row [blazer_row]
        (Fin (9 / 10)) SIMILARITY_THRESHOLD
      = ''Error generating response: '' @ timeout_message
          @ ''\<newline>\<newline>## Related Items Found\<newline>\<newline>'' @ items_text [blazer_row]
   \<and> status_code (HttpResponse 503 ''Service Unavailable'' (Inl (PyException ''Expecting value'')))
        \<noteq> 200
   \<and> generate_fashion_response config_service unavailable_post None blazer_row [blazer_row]
        (Fin (9 / 10)) SIMILARITY_THRESHOLD
      = fallback_response (match_quality (Fin (9 / 10)) SIMILARITY_THRESHOLD) blazer_row
          (Fin (9 / 10)) (items_text [blazer_row])"
proof -
  have t: "timeout_post (base_url config_service @ ''/api/generate'')
      (build_payload config_service
         (fashion_prompt (match_quality (Fin (9 / 10)) SIMILARITY_THRESHOLD)
            (confidence (Fin (9 / 10)) SIMILARITY_THRESHOLD) (Fin (9 / 10)) blazer_row
            (items_text [blazer_row])) None) = Inl (PyException timeout_message)"
    by (simp add: timeout_post_def)
  have u: "unavailable_post (base_url config_service @ ''/api/generate'')
      (build_payload config_service
         (fashion_prompt (match_quality (Fin (9 / 10)) SIMILARITY_THRESHOLD)
            (confidence (Fin (9 / 10)) SIMILARITY_THRESHOLD) (Fin (9 / 10)) blazer_row
            (items_text [blazer_row])) None)
      = Inr (HttpResponse 503 ''Service Unavailable'' (Inl (PyException ''Expecting value'')))"
    by (simp add: unavailable_post_def)
  have s: "status_code (HttpResponse 503 ''Service Unavailable'' (Inl (PyException ''Expecting value'')))
        \<noteq> 200" by simp
  have c1: "generate_fashion_response config_service timeout_post None blazer_row [blazer_row]
        (Fin (9 / 10)) SIMILARITY_THRESHOLD
      = ''Error generating response: '' @ timeout_message
          @ ''\<newline>\<newline>## Related Items Found\<newline>\<newline>'' @ items_text [blazer_row]"
    using generation_errors_in_band [OF refl refl, of config_service timeout_post None blazer_row
        "[blazer_row]" "Fin (9 / 10)" SIMILARITY_THRESHOLD] t
      timeout_text_long timeout_text_no_header
    by (simp add: Let_def)
  have c2: "generate_fashion_response config_service unavailable_post None blazer_row [blazer_row]
        (Fin (9 / 10)) SIMILARITY_THRESHOLD
      = fallback_response (match_quality (Fin (9 / 10)) SIMILARITY_THRESHOLD) blazer_row
          (Fin (9 / 10)) (items_text [blazer_row])"
    using generation_errors_in_band [OF refl refl, of config_service unavailable_post None
        blazer_row "[blazer_row]" "Fin (9 / 10)" SIMILARITY_THRESHOLD] u
    by simp
  from t s c1 c2 show ?thesis by (intro conjI)
qed

text \<open>
  The claim as first stated fails for a request that times out: the message of the
  exception is long enough to pass the length check, so the report that comes back is the
  error text with the listing appended, not the fallback report.
\<close>

theorem timeout_error_is_surfaced:
  "generate_fashion_response config_service timeout_post None blazer_row [blazer_row]
        (Fin (9 / 10)) SIMILARITY_THRESHOLD
      = ''Error generating response: '' @ timeout_message
          @ ''\<newline>\<newline>## Related Items Found\<newline>\<newline>'' @ items_text [blazer_row]
   \<and> generate_fashion_response config_service timeout_post None blazer_row [blazer_row]
        (Fin (9 / 10)) SIMILARITY_THRESHOLD
      \<noteq> fallback_response (match_quality (Fin (9 / 10)) SIMILARITY_THRESHOLD) blazer_row
          (Fin (9 / 10)) (items_text [blazer_row])"
proof -
  have g: "''Error generating response: '' @ timeout_message
             = generate_response config_service timeout_post
                 (fashion_prompt (match_quality (Fin (9 / 10)) SIMILARITY_THRESHOLD)
                    (confidence (Fin (9 / 10)) SIMILARITY_THRESHOLD) (Fin (9 / 10)) blazer_row
                    (items_text [blazer_row])) None"
    by (simp add: generate_response_def generate_response_body_def timeout_post_def)
  have r: "generate_fashion_response config_service timeout_post None blazer_row [blazer_row]
        (Fin (9 / 10)) SIMILARITY_THRESHOLD
      = ''Error generating response: '' @ timeout_message
          @ ''\<newline>\<newline>## Related Items Found\<newline>\<newline>'' @ items_text [blazer_row]"
    using gfr_long [OF g timeout_text_long] timeout_text_no_header by simp
  have "''Error generating response: '' @ timeout_message
          @ ''\<newline>\<newline>## Related Items Found\<newline>\<newline>'' @ items_text [blazer_row]
        \<noteq> fallback_response (match_quality (Fin (9 / 10)) SIMILARITY_THRESHOLD) blazer_row
          (Fin (9 / 10)) (items_text [blazer_row])"
    by (simp add: fallback_response_def)
  with r show ?thesis by simp
qed

lemma items_text_bullets: "items_text items = join ''\<newline>'' (map bullet items)"
  by (simp add: items_text_def items_loop_append item_info_eq_bullet)

lemma sublist_join_member: "x \<in> set xs \<Longrightarrow> sublist x (join sep xs)"
proof (induction sep xs rule: join.induct)
  case (1 sep)
  then show ?case by simp
next
  case (2 sep p)
  then show ?case by simp
next
  case (3 sep p q ps)
  show ?case
  proof (cases "x = p")
    case True
    then show ?thesis by simp
  next
    case False
    with 3 have "sublist x (join sep (q # ps))" by simp
    then show ?thesis by (simp only: join.simps) (intro sublist_appR)
  qed
qed

lemma bullet_in_listing:
  "item \<in> set items \<Longrightarrow> sublist (bullet item) (items_text items)"
  unfolding items_text_bullets by (rule sublist_join_member) simp

lemma sublist_trans: "sublist xs ys \<Longrightarrow> sublist ys zs \<Longrightarrow> sublist xs zs"
  by (rule sublist_order.order_trans)

text \<open>
  Claim C3.  Whenever the text that the generation capability returns for the request is
  empty, or its stripped length is below the minimum of 100 characters,
  \<^verbatim>\<open>generate_fashion_response\<close> discards it and returns the fallback report built from the
  fixed template.  That report contains the matched item's name, its price, the similarity
  score printed with two decimals, and the whole related-items listing: the bullets of
  all entries of the group, joined by newlines, so every entry's bullet is in the report.
\<close>

theorem fallback_on_short_generation:
  assumes "g = generate_response svc post
                (fashion_prompt (match_quality s t) (confidence s t) s row (items_text items)) img"
    and "g = [] \<or> length (strip g) < 100"
  shows "generate_fashion_response svc post img row items s t =
           fallback_response (match_quality s t) row s (items_text items)
         \<and> sublist (str_cell (row_get row ''Item Name'' (PyStr ''Unknown'')))
              (generate_fashion_response svc post img row items s t)
         \<and> sublist (str_cell (row_get row ''Price'' (PyStr ''Unknown'')))
              (generate_fashion_response svc post img row items s t)
         \<and> sublist (fmt_2f s) (generate_fashion_response svc post img row items s t)
         \<and> sublist (items_text items) (generate_fashion_response svc post img row items s t)
         \<and> items_text items = join ''\<newline>'' (map bullet items)
         \<and> (\<forall>item \<in> set items.
               sublist (bullet item) (generate_fashion_response svc post img row items s t))"
proof -
  have r: "generate_fashion_response svc post img row items s t =
           fallback_response (match_quality s t) row s (items_text items)"
    by (rule gfr_short [OF assms])
  have l: "sublist (items_text items) (generate_fashion_response svc post img row items s t)"
    unfolding r by (rule fallback_contains)
  have b: "\<forall>item \<in> set items.
               sublist (bullet item) (generate_fashion_response svc post img row items s t)"
    using bullet_in_listing l sublist_trans by blast
  show ?thesis
    using l b by (simp only: r fallback_contains items_text_bullets simp_thms)
qed

lemma terse_post_response: "generate_response config_service terse_post p img = ''  Nice blazer.  ''"
  by (simp add: generate_response_def generate_response_body_def terse_post_def)

lemma fmt_samples:
  "fmt_2f (Fin (9 / 10)) = ''0.90''" "fmt_2f (Fin (79 / 100)) = ''0.79''"
  "fmt_2f (Fin (8 / 10)) = ''0.80''"
  by (simp_all add: round_half_even_def show_nat.simps digit_char_def Let_def)

lemma sample_listing:
  "items_text [blazer_row, shirt_row] =
     ''* Elegant Blazer - Price: $299 - Brand: Fashion House - [View Image](http://example.com/blazer.jpg)\<newline>* Classic Shirt''"
  by (simp add: items_text_bullets bullet_def optional_field_def row_get_def blazer_row_def
        shirt_row_def)

lemma sample_fallback:
  "fallback_response ''excellent match'' blazer_row (Fin (9 / 10))
     (items_text [blazer_row, shirt_row]) =
   ''## Fashion Analysis Results\<newline>\<newline>Based on your image, I've identified a excellent match in our database:\<newline>\<newline>**Matched Item:** Elegant Blazer\<newline>**Brand:** Fashion House\<newline>**Price:** $299\<newline>**Similarity Score:** 0.90\<newline>\<newline>## Related Items Found\<newline>\<newline>* Elegant Blazer - Price: $299 - Brand: Fashion House - [View Image](http://example.com/blazer.jpg)\<newline>* Classic Shirt\<newline>\<newline>*Note: The AI analysis was incomplete, but here are the items we found in our database that match your image.*''"
  unfolding sample_listing fallback_response_def fmt_samples
  by (simp add: row_get_def blazer_row_def)

theorem fallback_on_short_generation_witness:
  "generate_response config_service empty_post
      (fashion_prompt (match_quality (Fin (9 / 10)) SIMILARITY_THRESHOLD)
         (confidence (Fin (9 / 10)) SIMILARITY_THRESHOLD) (Fin (9 / 10)) blazer_row
         (items_text [blazer_row, shirt_row])) None = []
   \<and> generate_fashion_response config_service empty_post None blazer_row [blazer_row, shirt_row]
        (Fin (9 / 10)) SIMILARITY_THRESHOLD =
      ''## Fashion Analysis Results\<newline>\<newline>Based on your image, I've identified a excellent match in our database:\<newline>\<newline>**Matched Item:** Elegant Blazer\<newline>**Brand:** Fashion House\<newline>**Price:** $299\<newline>**Similarity Score:** 0.90\<newline>\<newline>## Related Items Found\<newline>\<newline>* Elegant Blazer - Price: $299 - Brand: Fashion House - [View Image](http://example.com/blazer.jpg)\<newline>* Classic Shirt\<newline>\<newline>*Note: The AI analysis was incomplete, but here are the items we found in our database that match your image.*''
   \<and> length (strip ''  Nice blazer.  '') = 12
   \<and> generate_fashion_response config_service terse_post None blazer_row [blazer_row, shirt_row]
        (Fin (9 / 10)) SIMILARITY_THRESHOLD =
      ''## Fashion Analysis Results\<newline>\<newline>Based on your image, I've identified a excellent match in our database:\<newline>\<newline>**Matched Item:** Elegant Blazer\<newline>**Brand:** Fashion House\<newline>**Price:** $299\<newline>**Similarity Score:** 0.90\<newline>\<newline>## Related Items Found\<newline>\<newline>* Elegant Blazer - Price: $299 - Brand: Fashion House - [View Image](http://example.com/blazer.jpg)\<newline>* Classic Shirt\<newline>\<newline>*Note: The AI analysis was incomplete, but here are the items we found in our database that match your image.*''"
proof -
  have g: "generate_response config_service empty_post
      (fashion_prompt (match_quality (Fin (9 / 10)) SIMILARITY_THRESHOLD)
         (confidence (Fin (9 / 10)) SIMILARITY_THRESHOLD) (Fin (9 / 10)) blazer_row
         (items_text [blazer_row, shirt_row])) None = []"
    by (rule empty_post_response)
  have h: "generate_response config_service terse_post
      (fashion_prompt (match_quality (Fin (9 / 10)) SIMILARITY_THRESHOLD)
         (confidence (Fin (9 / 10)) SIMILARITY_THRESHOLD) (Fin (9 / 10)) blazer_row
         (items_text [blazer_row, shirt_row])) None = ''  Nice blazer.  ''"
    by (rule terse_post_response)
  have n: "length (strip ''  Nice blazer.  '') = 12"
    by (simp add: strip_def is_space_def)
  from n have lt: "length (strip ''  Nice blazer.  '') < 100" by simp
  have q: "match_quality (Fin (9 / 10)) SIMILARITY_THRESHOLD = ''excellent match''"
    by (simp add: match_quality_def SIMILARITY_THRESHOLD_def)
  have a: "generate_fashion_response config_service empty_post None blazer_row
             [blazer_row, shirt_row] (Fin (9 / 10)) SIMILARITY_THRESHOLD =
           fallback_response ''excellent match'' blazer_row (Fin (9 / 10))
             (items_text [blazer_row, shirt_row])"
    using fallback_on_short_generation [OF g [symmetric] disjI1 [OF refl]]
    unfolding q by blast
  have b: "generate_fashion_response config_service terse_post None blazer_row
             [blazer_row, shirt_row] (Fin (9 / 10)) SIMILARITY_THRESHOLD =
           fallback_response ''excellent match'' blazer_row (Fin (9 / 10))
             (items_text [blazer_row, shirt_row])"
    using fallback_on_short_generation [OF h [symmetric] disjI2 [OF lt]]
    unfolding q by blast
  show ?thesis
    unfolding a b sample_fallback using g n by simp
qed








lemma dropWhile_unchanged: "xs \<noteq> [] \<Longrightarrow> \<not> P (hd xs) \<Longrightarrow> dropWhile P xs = xs"
  by (cases xs) simp_all

lemma strip_unchanged:
  assumes "s \<noteq> []" "\<not> is_space (hd s)" "\<not> is_space (last s)"
  shows "strip s = s"
proof -
  have a: "dropWhile is_space s = s" using assms(1,2) by (rule dropWhile_unchanged)
  have "dropWhile is_space (rev s) = rev s"
    using assms(1,3) by (intro dropWhile_unchanged) (simp_all add: hd_rev)
  with a show ?thesis by (simp add: strip_def)
qed

lemma prompt_strip: "strip (fashion_prompt q c s row l) = fashion_prompt q c s row l"
proof (rule strip_unchanged)
  show "fashion_prompt q c s row l \<noteq> []" by (simp add: fashion_prompt_def)
  show "\<not> is_space (hd (fashion_prompt q c s row l))"
    by (simp add: fashion_prompt_def is_space_def)
  show "\<not> is_space (last (fashion_prompt q c s row l))"
    by (simp add: fashion_prompt_def is_space_def)
qed

lemma prompt_long: "100 \<le> length (strip (fashion_prompt q c s row l))"
  unfolding prompt_strip by (simp add: fashion_prompt_def)

lemma prompt_header: "sublist ''RELATED ITEMS'' (fashion_prompt q c s row l)"
proof -
  have h: "sublist ''RELATED ITEMS'' ''\<newline>\<newline>RELATED ITEMS IN DATABASE:\<newline>''"
    by (simp add: sublist_Cons_right)
  show ?thesis
    unfolding fashion_prompt_def by (intro sublist_appR sublist_appL [OF h])
qed

lemma echo_post_response: "generate_response svc echo_post P img = P"
  by (simp add: generate_response_def generate_response_body_def echo_post_def prompt_of_payload)

lemma echo_run:
  "generate_fashion_response svc echo_post img row items s t
     = fashion_prompt (match_quality s t) (confidence s t) s row (items_text items)"
  using gfr_long [OF echo_post_response [symmetric] prompt_long] prompt_header
  by simp

lemma empty_run:
  "generate_fashion_response svc empty_post img row items s t
     = fallback_response (match_quality s t) row s (items_text items)"
proof -
  have "generate_response svc empty_post P img = []" for P
    by (simp add: generate_response_def generate_response_body_def empty_post_def)
  from gfr_short [OF this [symmetric] disjI1 [OF refl]] show ?thesis .
qed

text \<open>
  Claim C5.  For every similarity score and threshold, \<^verbatim>\<open>generate_fashion_response\<close>
  frames the match as an \<^verbatim>\<open>excellent match\<close> with \<^verbatim>\<open>high confidence\<close> exactly when
  \<^verbatim>\<open>score >= threshold\<close>, and as a \<^verbatim>\<open>similar item\<close> with \<^verbatim>\<open>moderate confidence\<close> otherwise.
  The framing is read off what the function does: the request it sends, which a backend
  that hands the prompt back returns as the report, opens with the framing sentence and
  the score; and the fallback report it builds when the backend answers with nothing
  names the same match quality.  The threshold is a constant whose default is 0.8, both
  as the parameter default and in the configuration.
\<close>

theorem match_framing_by_threshold:
  "prefix (''You are a fashion expert analyzing a user's uploaded image. \<newline>\<newline>The user's image has been matched with excellent match in our database with high confidence (similarity score: '' @ fmt_2f s @ '').'')
      (generate_fashion_response svc echo_post img row items s t) = float_ge s t
   \<and> prefix (''You are a fashion expert analyzing a user's uploaded image. \<newline>\<newline>The user's image has been matched with similar item in our database with moderate confidence (similarity score: '' @ fmt_2f s @ '').'')
      (generate_fashion_response svc echo_post img row items s t) = (\<not> float_ge s t)
   \<and> prefix ''## Fashion Analysis Results\<newline>\<newline>Based on your image, I've identified a excellent match in our database:''
      (generate_fashion_response svc empty_post img row items s t) = float_ge s t
   \<and> prefix ''## Fashion Analysis Results\<newline>\<newline>Based on your image, I've identified a similar item in our database:''
      (generate_fashion_response svc empty_post img row items s t) = (\<not> float_ge s t)
   \<and> (match_quality s t = ''excellent match'' \<and> confidence s t = ''high confidence'') = float_ge s t
   \<and> (match_quality s t = ''similar item'' \<and> confidence s t = ''moderate confidence'')
        = (\<not> float_ge s t)
   \<and> threshold_default = Fin (8 / 10) \<and> SIMILARITY_THRESHOLD = Fin (8 / 10)"
proof -
  have e1: "prefix (''You are a fashion expert analyzing a user's uploaded image. \<newline>\<newline>The user's image has been matched with excellent match in our database with high confidence (similarity score: '' @ fmt_2f s @ '').'')
      (generate_fashion_response svc echo_post img row items s t) = float_ge s t"
    unfolding echo_run
    by (simp add: fashion_prompt_def match_quality_def confidence_def)
  have e2: "prefix (''You are a fashion expert analyzing a user's uploaded image. \<newline>\<newline>The user's image has been matched with similar item in our database with moderate confidence (similarity score: '' @ fmt_2f s @ '').'')
      (generate_fashion_response svc echo_post img row items s t) = (\<not> float_ge s t)"
    unfolding echo_run
    by (simp add: fashion_prompt_def match_quality_def confidence_def)
  have f1: "prefix ''## Fashion Analysis Results\<newline>\<newline>Based on your image, I've identified a excellent match in our database:''
      (generate_fashion_response svc empty_post img row items s t) = float_ge s t"
    unfolding empty_run
    by (simp add: fallback_response_def match_quality_def)
  have f2: "prefix ''## Fashion Analysis Results\<newline>\<newline>Based on your image, I've identified a similar item in our database:''
      (generate_fashion_response svc empty_post img row items s t) = (\<not> float_ge s t)"
    unfolding empty_run
    by (simp add: fallback_response_def match_quality_def)
  have a: "(match_quality s t = ''excellent match'' \<and> confidence s t = ''high confidence'') = float_ge s t"
    by (simp add: match_quality_def confidence_def)
  have b: "(match_quality s t = ''similar item'' \<and> confidence s t = ''moderate confidence'')
        = (\<not> float_ge s t)"
    by (simp add: match_quality_def confidence_def)
  show ?thesis
    by (intro conjI e1 e2 f1 f2 a b threshold_default_def SIMILARITY_THRESHOLD_def)
qed

theorem match_framing_by_threshold_witness:
  "prefix ''You are a fashion expert analyzing a user's uploaded image. \<newline>\<newline>The user's image has been matched with excellent match in our database with high confidence (similarity score: 0.90).''
     (generate_fashion_response config_service echo_post None blazer_row [blazer_row]
        (Fin (9 / 10)) SIMILARITY_THRESHOLD)
   \<and> prefix ''You are a fashion expert analyzing a user's uploaded image. \<newline>\<newline>The user's image has been matched with excellent match in our database with high confidence (similarity score: 0.80).''
     (generate_fashion_response config_service echo_post None blazer_row [blazer_row]
        (Fin (8 / 10)) threshold_default)
   \<and> prefix ''You are a fashion expert analyzing a user's uploaded image. \<newline>\<newline>The user's image has been matched with similar item in our database with moderate confidence (similarity score: 0.79).''
     (generate_fashion_response config_service echo_post None blazer_row [blazer_row]
        (Fin (79 / 100)) SIMILARITY_THRESHOLD)
   \<and> prefix ''## Fashion Analysis Results\<newline>\<newline>Based on your image, I've identified a similar item in our database:''
     (generate_fashion_response config_service empty_post None blazer_row [blazer_row]
        (Fin (79 / 100)) SIMILARITY_THRESHOLD)
   \<and> \<not> prefix ''## Fashion Analysis Results\<newline>\<newline>Based on your image, I've identified a excellent match in our database:''
     (generate_fashion_response config_service empty_post None blazer_row [blazer_row]
        NaN SIMILARITY_THRESHOLD)"
proof -
  have h1: "float_ge (Fin (9 / 10)) SIMILARITY_THRESHOLD"
    and h2: "float_ge (Fin (8 / 10)) threshold_default"
    and h3: "\<not> float_ge (Fin (79 / 100)) SIMILARITY_THRESHOLD"
    and h4: "\<not> float_ge NaN SIMILARITY_THRESHOLD"
    by (simp_all add: SIMILARITY_THRESHOLD_def threshold_default_def)
  have k1: "''You are a fashion expert analyzing a user's uploaded image. \<newline>\<newline>The user's image has been matched with excellent match in our database with high confidence (similarity score: '' @ fmt_2f (Fin (9 / 10)) @ '').'' = ''You are a fashion expert analyzing a user's uploaded image. \<newline>\<newline>The user's image has been matched with excellent match in our database with high confidence (similarity score: 0.90).''"
    unfolding fmt_samples by simp
  have "prefix (''You are a fashion expert analyzing a user's uploaded image. \<newline>\<newline>The user's image has been matched with excellent match in our database with high confidence (similarity score: '' @ fmt_2f (Fin (9 / 10)) @ '').'')
     (generate_fashion_response config_service echo_post None blazer_row [blazer_row]
        (Fin (9 / 10)) SIMILARITY_THRESHOLD)"
    using match_framing_by_threshold [where s = "Fin (9 / 10)" and svc = config_service
        and img = None and row = blazer_row and items = "[blazer_row]" and t = SIMILARITY_THRESHOLD] h1
    by blast
  then have p1: "prefix ''You are a fashion expert analyzing a user's uploaded image. \<newline>\<newline>The user's image has been matched with excellent match in our database with high confidence (similarity score: 0.90).''
     (generate_fashion_response config_service echo_post None blazer_row [blazer_row]
        (Fin (9 / 10)) SIMILARITY_THRESHOLD)"
    unfolding k1 .
  have k2: "''You are a fashion expert analyzing a user's uploaded image. \<newline>\<newline>The user's image has been matched with excellent match in our database with high confidence (similarity score: '' @ fmt_2f (Fin (8 / 10)) @ '').'' = ''You are a fashion expert analyzing a user's uploaded image. \<newline>\<newline>The user's image has been matched with excellent match in our database with high confidence (similarity score: 0.80).''"
    unfolding fmt_samples by simp
  have "prefix (''You are a fashion expert analyzing a user's uploaded image. \<newline>\<newline>The user's image has been matched with excellent match in our database with high confidence (similarity score: '' @ fmt_2f (Fin (8 / 10)) @ '').'')
     (generate_fashion_response config_service echo_post None blazer_row [blazer_row]
        (Fin (8 / 10)) threshold_default)"
    using match_framing_by_threshold [where s = "Fin (8 / 10)" and svc = config_service
        and img = None and row = blazer_row and items = "[blazer_row]" and t = threshold_default] h2
    by blast
  then have p2: "prefix ''You are a fashion expert analyzing a user's uploaded image. \<newline>\<newline>The user's image has been matched with excellent match in our database with high confidence (similarity score: 0.80).''
     (generate_fashion_response config_service echo_post None blazer_row [blazer_row]
        (Fin (8 / 10)) threshold_default)"
    unfolding k2 .
  have k3: "''You are a fashion expert analyzing a user's uploaded image. \<newline>\<newline>The user's image has been matched with similar item in our database with moderate confidence (similarity score: '' @ fmt_2f (Fin (79 / 100)) @ '').'' = ''You are a fashion expert analyzing a user's uploaded image. \<newline>\<newline>The user's image has been matched with similar item in our database with moderate confidence (similarity score: 0.79).''"
    unfolding fmt_samples by simp
  have "prefix (''You are a fashion expert analyzing a user's uploaded image. \<newline>\<newline>The user's image has been matched with similar item in our database with moderate confidence (similarity score: '' @ fmt_2f (Fin (79 / 100)) @ '').'')
     (generate_fashion_response config_service echo_post None blazer_row [blazer_row]
        (Fin (79 / 100)) SIMILARITY_THRESHOLD)"
    using match_framing_by_threshold [where s = "Fin (79 / 100)" and svc = config_service
        and img = None and row = blazer_row and items = "[blazer_row]" and t = SIMILARITY_THRESHOLD] h3
    by blast
  then have p3: "prefix ''You are a fashion expert analyzing a user's uploaded image. \<newline>\<newline>The user's image has been matched with similar item in our database with moderate confidence (similarity score: 0.79).''
     (generate_fashion_response config_service echo_post None blazer_row [blazer_row]
        (Fin (79 / 100)) SIMILARITY_THRESHOLD)"
    unfolding k3 .
  have p4: "prefix ''## Fashion Analysis Results\<newline>\<newline>Based on your image, I've identified a similar item in our database:''
     (generate_fashion_response config_service empty_post None blazer_row [blazer_row]
        (Fin (79 / 100)) SIMILARITY_THRESHOLD)"
    using match_framing_by_threshold [where s = "Fin (79 / 100)" and svc = config_service
        and img = None and row = blazer_row and items = "[blazer_row]"
        and t = SIMILARITY_THRESHOLD] h3
    by blast
  have p5: "\<not> prefix ''## Fashion Analysis Results\<newline>\<newline>Based on your image, I've identified a excellent match in our database:''
     (generate_fashion_response config_service empty_post None blazer_row [blazer_row]
        NaN SIMILARITY_THRESHOLD)"
    using match_framing_by_threshold [where s = NaN and svc = config_service
        and img = None and row = blazer_row and items = "[blazer_row]"
        and t = SIMILARITY_THRESHOLD] h4
    by blast
  from p1 p2 p3 p4 p5 show ?thesis by (intro conjI)
qed

section \<open>Properties of the pipeline\<close>

lemma process_image_returns: "\<exists>r. fst (process_image env app upload) = Inr r"
  by (cases "process_image_body env app upload")
     (auto simp: process_image_def split: sum.splits)

lemma process_image_invalid:
  "resolve_image upload = None \<Longrightarrow>
   process_image env app upload = (Inr ''Error: Invalid image format received'', [])"
  by (simp add: process_image_def process_image_body_def)

lemma process_image_not_found:
  "resolve_image upload = Some p \<Longrightarrow> os_path_exists env p = Inr False \<Longrightarrow>
   process_image env app upload =
     (Inr (''Error: Image file not found at '' @ str_path p),
      [Print (''Processing image: '' @ str_path p), CallExists p])"
  by (simp add: process_image_def process_image_body_def)

lemma process_image_no_vector:
  "resolve_image upload = Some p \<Longrightarrow> os_path_exists env p = Inr True \<Longrightarrow>
   encode_image env p = Inr enc \<Longrightarrow> enc_vector enc = None \<Longrightarrow>
   process_image env app upload =
     (Inr (''Error: '' @ str_cell (case enc_error enc of
              None \<Rightarrow> PyStr ''Unable to process the image. Please try another image.''
            | Some m \<Rightarrow> m)),
      [Print (''Processing image: '' @ str_path p), CallExists p, CallEncode p,
       Print (''Image encoding failed: '' @ str_cell (case enc_error enc of
              None \<Rightarrow> PyStr ''Unable to process the image. Please try another image.''
            | Some m \<Rightarrow> m))])"
  by (simp add: process_image_def process_image_body_def Let_def)

lemma process_image_no_match:
  "resolve_image upload = Some p \<Longrightarrow> os_path_exists env p = Inr True \<Longrightarrow>
   encode_image env p = Inr enc \<Longrightarrow> enc_vector enc = Some v \<Longrightarrow>
   find_closest_match env v (data app) = Inr None \<Longrightarrow>
   process_image env app upload =
     (Inr ''Error: Unable to find a match. Please try another image.'',
      [Print (''Processing image: '' @ str_path p), CallExists p, CallEncode p,
       Print (''Image encoded successfully. Vector shape: '' @ shape_str v), CallMatch v,
       Print ''No closest match found in dataset''])"
  by (simp add: process_image_def process_image_body_def match_stage_def Let_def)


text \<open>
  Claim C1.  For every input and whatever the collaborators do, \<^verbatim>\<open>process_image\<close> returns a
  string and raises nothing.  A failure local to a stage ends the run there with an error
  string, and the stages after it are not invoked: an input that does not resolve gives
  the invalid-format message with nothing called at all, a missing file gives the
  not-found message after the existence check only, an encoder that returns no vector
  gives its error after the encoder call only, and a matcher that finds nothing gives the
  no-match message with neither the grouping nor the synthesizer called.
\<close>

theorem process_image_always_a_string:
  "(\<exists>r. fst (process_image env app upload) = Inr r)
   \<and> (resolve_image upload = None \<longrightarrow>
        process_image env app upload = (Inr ''Error: Invalid image format received'', []))
   \<and> (\<forall>p. resolve_image upload = Some p \<and> os_path_exists env p = Inr False \<longrightarrow>
        process_image env app upload =
          (Inr (''Error: Image file not found at '' @ str_path p),
           [Print (''Processing image: '' @ str_path p), CallExists p]))
   \<and> (\<forall>p enc. resolve_image upload = Some p \<and> os_path_exists env p = Inr True
          \<and> encode_image env p = Inr enc \<and> enc_vector enc = None \<longrightarrow>
        process_image env app upload =
          (Inr (''Error: '' @ str_cell (case enc_error enc of
                   None \<Rightarrow> PyStr ''Unable to process the image. Please try another image.''
                 | Some m \<Rightarrow> m)),
           [Print (''Processing image: '' @ str_path p), CallExists p, CallEncode p,
            Print (''Image encoding failed: '' @ str_cell (case enc_error enc of
                   None \<Rightarrow> PyStr ''Unable to process the image. Please try another image.''
                 | Some m \<Rightarrow> m))]))
   \<and> (\<forall>p enc v. resolve_image upload = Some p \<and> os_path_exists env p = Inr True
          \<and> encode_image env p = Inr enc \<and> enc_vector enc = Some v
          \<and> find_closest_match env v (data app) = Inr None \<longrightarrow>
        process_image env app upload =
          (Inr ''Error: Unable to find a match. Please try another image.'',
           [Print (''Processing image: '' @ str_path p), CallExists p, CallEncode p,
            Print (''Image encoded successfully. Vector shape: '' @ shape_str v), CallMatch v,
            Print ''No closest match found in dataset'']))"
  using process_image_returns [of env app upload]
  by (auto simp only: process_image_invalid process_image_not_found process_image_no_vector
        process_image_no_match)

theorem process_image_always_a_string_witness:
  "process_image sample_env sample_app OtherInput
     = (Inr ''Error: Invalid image format received'', [])
   \<and> process_image missing_file_env sample_app (PathString ''look.jpg'')
     = (Inr ''Error: Image file not found at look.jpg'',
        [Print ''Processing image: look.jpg'', CallExists (PathStr ''look.jpg'')])
   \<and> process_image failed_encoding_env sample_app (PathString ''look.jpg'')
     = (Inr ''Error: cannot identify image file'',
        [Print ''Processing image: look.jpg'', CallExists (PathStr ''look.jpg''),
         CallEncode (PathStr ''look.jpg''),
         Print ''Image encoding failed: cannot identify image file''])
   \<and> process_image no_match_env sample_app (PathString ''look.jpg'')
     = (Inr ''Error: Unable to find a match. Please try another image.'',
        [Print ''Processing image: look.jpg'', CallExists (PathStr ''look.jpg''),
         CallEncode (PathStr ''look.jpg''),
         Print ''Image encoded successfully. Vector shape: (2,)'', CallMatch [1, 0],
         Print ''No closest match found in dataset''])"
proof -
  have s: "shape_str [1, 0] = ''(2,)''"
    by (simp add: shape_str_def show_nat.simps digit_char_def)
  have a: "process_image sample_env sample_app OtherInput
     = (Inr ''Error: Invalid image format received'', [])"
    using process_image_always_a_string [of sample_env sample_app OtherInput] by simp
  have b: "process_image missing_file_env sample_app (PathString ''look.jpg'')
     = (Inr ''Error: Image file not found at look.jpg'',
        [Print ''Processing image: look.jpg'', CallExists (PathStr ''look.jpg'')])"
    using process_image_always_a_string [of missing_file_env sample_app "PathString ''look.jpg''"]
    by (simp add: missing_file_env_def sample_env_def)
  have c: "process_image failed_encoding_env sample_app (PathString ''look.jpg'')
     = (Inr ''Error: cannot identify image file'',
        [Print ''Processing image: look.jpg'', CallExists (PathStr ''look.jpg''),
         CallEncode (PathStr ''look.jpg''),
         Print ''Image encoding failed: cannot identify image file''])"
    using process_image_always_a_string [of failed_encoding_env sample_app
        "PathString ''look.jpg''"]
    by (simp add: failed_encoding_env_def sample_env_def failed_encoding_def)
  have d: "process_image no_match_env sample_app (PathString ''look.jpg'')
     = (Inr ''Error: Unable to find a match. Please try another image.'',
        [Print ''Processing image: look.jpg'', CallExists (PathStr ''look.jpg''),
         CallEncode (PathStr ''look.jpg''),
         Print ''Image encoded successfully. Vector shape: (2,)'', CallMatch [1, 0],
         Print ''No closest match found in dataset''])"
    using process_image_always_a_string [of no_match_env sample_app "PathString ''look.jpg''"]
    by (simp add: no_match_env_def sample_env_def sample_encoding_def s)
  from a b c d show ?thesis by (intro conjI)
qed

text \<open>
  Lines 112 to 122 for a matched row that does have a name: an empty selection is replaced
  by the single-entry group, in which every other missing field takes its default.
\<close>

lemma single_item_frame_defaults:
  "single_item_frame [(''Item Name'', PyStr n)] =
     [[(''Item Name'', PyStr n), (''Brand'', PyStr ''Unknown''), (''Price'', PyStr ''N/A''),
       (''Category'', PyStr ''Fashion''), (''Image URL'', PyStr [])]]"
  by (simp add: single_item_frame_def row_get_def)

lemma single_item_frame_used:
  assumes "row_item closest_row ''Item Name'' = Inr nm"
    and "get_all_items_for_image env (row_get closest_row ''Image URL'' (PyStr [])) (data app)
           = Inr found"
    and "found = None \<or> (\<exists>all_items. found = Some all_items \<and> frame_empty all_items)"
  shows "group_stage env app upload p enc closest_row s tr =
           synthesize_stage env app upload p enc closest_row s (single_item_frame closest_row)
             (tr @ [CallGroup (row_get closest_row ''Image URL'' (PyStr [])),
                    Print ''Using single matched item as no related items found.''])"
  using assms by (auto simp: group_stage_def Let_def)

text \<open>
  Claim C6.  When the related-items selection is empty the pipeline is meant to build a
  single-entry group from the matched row, with \<^verbatim>\<open>Fashion Item\<close> for a missing name.  For
  a matched row without a name the group that lines 115 to 121 would build has exactly
  these defaults, but the run never gets there: the line that prints the match reads
  \<^verbatim>\<open>closest_row['Item Name']\<close>, raises \<^verbatim>\<open>KeyError\<close>, and the result is an error string with
  neither the grouping nor the synthesizer called.
\<close>

theorem missing_name_raises_before_grouping:
  "map_of nameless_row ''Item Name'' = None
   \<and> single_item_frame nameless_row =
       [[(''Item Name'', PyStr ''Fashion Item''), (''Brand'', PyStr ''Style Co.''),
         (''Price'', PyStr ''$89''), (''Category'', PyStr ''Fashion''),
         (''Image URL'', PyStr [])]]
   \<and> get_all_items_for_image nameless_match_env
         (row_get nameless_row ''Image URL'' (PyStr [])) (data sample_app) = Inr None
   \<and> process_image nameless_match_env sample_app (PathString ''look.jpg'')
     = (Inr (''Error processing image: '' @ [CHR 0x27] @ ''Item Name'' @ [CHR 0x27]),
        [Print ''Processing image: look.jpg'', CallExists (PathStr ''look.jpg''),
         CallEncode (PathStr ''look.jpg''),
         Print ''Image encoded successfully. Vector shape: (2,)'', CallMatch [1, 0],
         Print (''Error in process_image: '' @ [CHR 0x27] @ ''Item Name'' @ [CHR 0x27]),
         PrintExc])"
  by (simp add: process_image_def process_image_body_def match_stage_def Let_def
        nameless_match_env_def sample_env_def sample_encoding_def nameless_row_def
        row_item_def shape_str_def show_nat.simps digit_char_def single_item_frame_def
        row_get_def)

lemma cleanup_unlink: "cleanup (env\<lparr>os_unlink := u\<rparr>) upload p tr = cleanup env upload p tr"
  by (cases upload; cases "os_unlink env p"; cases "u p") (simp_all add: cleanup_def)

lemma synthesize_stage_unlink:
  "synthesize_stage (env\<lparr>os_unlink := u\<rparr>) app upload p enc r s items tr
     = synthesize_stage env app upload p enc r s items tr"
  by (simp add: synthesize_stage_def Let_def cleanup_unlink)

lemma group_stage_unlink:
  "group_stage (env\<lparr>os_unlink := u\<rparr>) app upload p enc r s tr
     = group_stage env app upload p enc r s tr"
  by (simp add: group_stage_def Let_def synthesize_stage_unlink split: sum.splits)

lemma match_stage_unlink:
  "match_stage (env\<lparr>os_unlink := u\<rparr>) app upload p enc v tr
     = match_stage env app upload p enc v tr"
  by (simp add: match_stage_def Let_def group_stage_unlink split: sum.splits option.splits)

lemma process_image_unlink:
  "process_image (env\<lparr>os_unlink := u\<rparr>) app upload = process_image env app upload"
  by (simp add: process_image_def process_image_body_def Let_def match_stage_unlink
        split: sum.splits option.splits)

lemma synthesize_stage_cleans:
  "prefix ''/tmp/'' n \<Longrightarrow>
   CallUnlink (PathStr n)
     \<in> set (snd (synthesize_stage env app (FileObject n) (PathStr n) enc r s items tr))"
  by (simp add: synthesize_stage_def cleanup_def Let_def split: sum.splits)

lemma group_stage_cleans:
  assumes "prefix ''/tmp/'' n"
    and "\<forall>r' i'. CallSynthesize r' i' \<notin> set tr"
    and "CallSynthesize r0 i0 \<in> set (snd (group_stage env app (FileObject n) (PathStr n) enc r s tr))"
  shows "CallUnlink (PathStr n)
     \<in> set (snd (group_stage env app (FileObject n) (PathStr n) enc r s tr))"
  using assms synthesize_stage_cleans [OF assms(1)]
  by (auto simp: group_stage_def Let_def split: sum.splits if_splits)

lemma match_stage_cleans:
  assumes "prefix ''/tmp/'' n"
    and "\<forall>r' i'. CallSynthesize r' i' \<notin> set tr"
    and "CallSynthesize r0 i0 \<in> set (snd (match_stage env app (FileObject n) (PathStr n) enc v tr))"
  shows "CallUnlink (PathStr n)
     \<in> set (snd (match_stage env app (FileObject n) (PathStr n) enc v tr))"
proof (cases "find_closest_match env v (data app)")
  case (Inl e)
  with assms show ?thesis by (auto simp: match_stage_def Let_def)
next
  case (Inr found)
  show ?thesis
  proof (cases found)
    case None
    with Inr assms show ?thesis by (auto simp: match_stage_def Let_def)
  next
    case (Some rs)
    obtain r s where rs: "rs = (r, s)" by (cases rs)
    show ?thesis
    proof (cases "row_item r ''Item Name''")
      case (Inl e)
      with Inr Some rs assms show ?thesis by (auto simp: match_stage_def Let_def)
    next
      case (Inr nm)
      let ?tr = "tr @ [CallMatch v, Print (''Closest match: '' @ str_cell nm
                   @ '' with similarity score '' @ fmt_2f s)]"
      have eq: "match_stage env app (FileObject n) (PathStr n) enc v tr
                  = group_stage env app (FileObject n) (PathStr n) enc r s ?tr"
        using \<open>find_closest_match env v (data app) = Inr found\<close> Some rs Inr
        by (simp add: match_stage_def Let_def)
      have "\<forall>r' i'. CallSynthesize r' i' \<notin> set ?tr" using assms(2) by simp
      from group_stage_cleans [OF assms(1) this] assms(3) show ?thesis
        unfolding eq by blast
    qed
  qed
qed

lemma body_cleans:
  assumes "prefix ''/tmp/'' n"
    and "CallSynthesize r0 i0 \<in> set (snd (process_image_body env app (FileObject n)))"
  shows "CallUnlink (PathStr n) \<in> set (snd (process_image_body env app (FileObject n)))"
proof (cases "os_path_exists env (PathStr n)")
  case (Inl e)
  with assms show ?thesis by (auto simp: process_image_body_def Let_def)
next
  case (Inr found)
  show ?thesis
  proof (cases "encode_image env (PathStr n)")
    case (Inl e)
    with Inr assms show ?thesis by (auto simp: process_image_body_def Let_def split: if_splits)
  next
    case enc: (Inr enc)
    show ?thesis
    proof (cases "enc_vector enc")
      case None
      with Inr enc assms show ?thesis
        by (auto simp: process_image_body_def Let_def split: if_splits)
    next
      case (Some v)
      show ?thesis
      proof (cases found)
        case False
        with Inr assms show ?thesis by (auto simp: process_image_body_def Let_def)
      next
        case True
        let ?tr = "[Print (''Processing image: '' @ n), CallExists (PathStr n),
                    CallEncode (PathStr n),
                    Print (''Image encoded successfully. Vector shape: '' @ shape_str v)]"
        have eq: "process_image_body env app (FileObject n)
                   = match_stage env app (FileObject n) (PathStr n) enc v ?tr"
          using Inr enc Some True by (simp add: process_image_body_def Let_def)
        have "\<forall>r' i'. CallSynthesize r' i' \<notin> set ?tr" by simp
        from match_stage_cleans [OF assms(1) this] assms(2) show ?thesis
          unfolding eq by blast
      qed
    qed
  qed
qed

lemma process_image_trace:
  "set (snd (process_image_body env app upload)) \<subseteq> set (snd (process_image env app upload))"
  by (cases "process_image_body env app upload") (auto simp: process_image_def split: sum.splits)

lemma process_image_trace_synth:
  "CallSynthesize r0 i0 \<in> set (snd (process_image env app upload)) \<Longrightarrow>
   CallSynthesize r0 i0 \<in> set (snd (process_image_body env app upload))"
  by (cases "process_image_body env app upload") (auto simp: process_image_def split: sum.splits)

text \<open>
  Claim C9, as amended.  Whether \<^verbatim>\<open>os.unlink\<close> succeeds or raises makes no difference to
  what \<^verbatim>\<open>process_image\<close> returns or prints: a cleanup failure is dropped, never surfaced.
  When the input is a file object whose name starts with \<^verbatim>\<open>/tmp/\<close> and the run has reached
  the synthesizer, the file is unlinked.
\<close>

theorem cleanup_failure_never_surfaces:
  "process_image (env\<lparr>os_unlink := u\<rparr>) app upload = process_image env app upload
   \<and> (\<forall>n r items. upload = FileObject n \<and> prefix ''/tmp/'' n
          \<and> CallSynthesize r items \<in> set (snd (process_image env app upload))
        \<longrightarrow> CallUnlink (PathStr n) \<in> set (snd (process_image env app upload)))"
proof (intro conjI allI impI)
  show "process_image (env\<lparr>os_unlink := u\<rparr>) app upload = process_image env app upload"
    by (rule process_image_unlink)
next
  fix n r items
  assume a: "upload = FileObject n \<and> prefix ''/tmp/'' n
          \<and> CallSynthesize r items \<in> set (snd (process_image env app upload))"
  then have "CallSynthesize r items \<in> set (snd (process_image_body env app (FileObject n)))"
    using process_image_trace_synth by blast
  with a have "CallUnlink (PathStr n) \<in> set (snd (process_image_body env app (FileObject n)))"
    using body_cleans by blast
  with a show "CallUnlink (PathStr n) \<in> set (snd (process_image env app upload))"
    using process_image_trace by blast
qed

lemma shape_two: "shape_str [1, 0] = ''(2,)''"
  by (simp add: shape_str_def show_nat.simps digit_char_def)

lemma sample_run:
  "process_image sample_env sample_app (FileObject ''/tmp/upload.jpg'') =
     (Inr (generate_fashion_response config_service empty_post (Some ''aGk='') blazer_row
             (single_item_frame blazer_row) (Fin 1) SIMILARITY_THRESHOLD),
      [Print ''Processing image: /tmp/upload.jpg'', CallExists (PathStr ''/tmp/upload.jpg''),
       CallEncode (PathStr ''/tmp/upload.jpg''),
       Print ''Image encoded successfully. Vector shape: (2,)'', CallMatch [1, 0],
       Print ''Closest match: Elegant Blazer with similarity score 1.00'',
       CallGroup (PyStr ''http://example.com/blazer.jpg''),
       Print ''Using single matched item as no related items found.'',
       CallSynthesize blazer_row (single_item_frame blazer_row),
       CallUnlink (PathStr ''/tmp/upload.jpg''),
       CallProcessResponse
         (generate_fashion_response config_service empty_post (Some ''aGk='') blazer_row
            (single_item_frame blazer_row) (Fin 1) SIMILARITY_THRESHOLD)])"
proof -
  have n: "row_item blazer_row ''Item Name'' = Inr (PyStr ''Elegant Blazer'')"
    by (simp add: row_item_def blazer_row_def)
  have u: "row_get blazer_row ''Image URL'' (PyStr []) = PyStr ''http://example.com/blazer.jpg''"
    by (simp add: row_get_def blazer_row_def)
  show ?thesis
    by (simp add: process_image_def process_image_body_def match_stage_def group_stage_def
          synthesize_stage_def cleanup_def Let_def sample_env_def sample_app_def
          sample_encoding_def n u shape_two round_half_even_def show_nat.simps
          digit_char_def)
qed

theorem cleanup_failure_never_surfaces_witness:
  "process_image unlink_fails_env sample_app (FileObject ''/tmp/upload.jpg'')
     = process_image sample_env sample_app (FileObject ''/tmp/upload.jpg'')
   \<and> prefix ''/tmp/'' ''/tmp/upload.jpg''
   \<and> CallSynthesize blazer_row (single_item_frame blazer_row)
        \<in> set (snd (process_image sample_env sample_app (FileObject ''/tmp/upload.jpg'')))
   \<and> CallUnlink (PathStr ''/tmp/upload.jpg'')
        \<in> set (snd (process_image sample_env sample_app (FileObject ''/tmp/upload.jpg'')))"
proof -
  have p: "prefix ''/tmp/'' ''/tmp/upload.jpg''" by simp
  have s: "CallSynthesize blazer_row (single_item_frame blazer_row)
        \<in> set (snd (process_image sample_env sample_app (FileObject ''/tmp/upload.jpg'')))"
    by (simp add: sample_run)
  from cleanup_failure_never_surfaces [where env = sample_env
         and u = "\<lambda>p. Inl (PyException ''[Errno 13] Permission denied'')"
         and app = sample_app and upload = "FileObject ''/tmp/upload.jpg''"] p s
  show ?thesis unfolding unlink_fails_env_def by blast
qed

text \<open>
  The claim as first stated fails twice.  A run that stops at the encoder leaves the
  temporary file in place: nothing is unlinked.  And when the unlink raises, the run
  prints nothing about it: after the unlink only the call of \<^verbatim>\<open>process_response\<close> follows.
\<close>

theorem cleanup_skipped_and_unlogged:
  "process_image failed_encoding_env sample_app (FileObject ''/tmp/upload.jpg'') =
     (Inr ''Error: cannot identify image file'',
      [Print ''Processing image: /tmp/upload.jpg'', CallExists (PathStr ''/tmp/upload.jpg''),
       CallEncode (PathStr ''/tmp/upload.jpg''),
       Print ''Image encoding failed: cannot identify image file''])
   \<and> os_unlink unlink_fails_env (PathStr ''/tmp/upload.jpg'')
       = Inl (PyException ''[Errno 13] Permission denied'')
   \<and> snd (process_image unlink_fails_env sample_app (FileObject ''/tmp/upload.jpg'')) =
      [Print ''Processing image: /tmp/upload.jpg'', CallExists (PathStr ''/tmp/upload.jpg''),
       CallEncode (PathStr ''/tmp/upload.jpg''),
       Print ''Image encoded successfully. Vector shape: (2,)'', CallMatch [1, 0],
       Print ''Closest match: Elegant Blazer with similarity score 1.00'',
       CallGroup (PyStr ''http://example.com/blazer.jpg''),
       Print ''Using single matched item as no related items found.'',
       CallSynthesize blazer_row (single_item_frame blazer_row),
       CallUnlink (PathStr ''/tmp/upload.jpg''),
       CallProcessResponse
         (generate_fashion_response config_service empty_post (Some ''aGk='') blazer_row
            (single_item_frame blazer_row) (Fin 1) SIMILARITY_THRESHOLD)]"
proof -
  have a: "process_image failed_encoding_env sample_app (FileObject ''/tmp/upload.jpg'') =
     (Inr ''Error: cannot identify image file'',
      [Print ''Processing image: /tmp/upload.jpg'', CallExists (PathStr ''/tmp/upload.jpg''),
       CallEncode (PathStr ''/tmp/upload.jpg''),
       Print ''Image encoding failed: cannot identify image file''])"
    by (simp add: process_image_def process_image_body_def Let_def failed_encoding_env_def
          sample_env_def failed_encoding_def)
  have b: "os_unlink unlink_fails_env (PathStr ''/tmp/upload.jpg'')
       = Inl (PyException ''[Errno 13] Permission denied'')"
    by (simp add: unlink_fails_env_def)
  have c: "process_image unlink_fails_env sample_app (FileObject ''/tmp/upload.jpg'')
            = process_image sample_env sample_app (FileObject ''/tmp/upload.jpg'')"
    unfolding unlink_fails_env_def by (rule process_image_unlink)
  show ?thesis
    by (intro conjI a b) (simp add: c sample_run)
qed

lemma dummy_dataset_rows:
  "dummy_dataset rnd =
     Frame [''Item Name'', ''Brand'', ''Price'', ''Category'', ''Image URL'', ''Embedding'']
       [[TextCell (PyStr ''Elegant Blazer''), TextCell (PyStr ''Fashion House''),
         TextCell (PyStr ''$299''), TextCell (PyStr ''Blazer''),
         TextCell (PyStr ''http://example.com/blazer.jpg''),
         VectorCell (map rnd [0..<1000])],
        [TextCell (PyStr ''Classic Shirt''), TextCell (PyStr ''Style Co.''),
         TextCell (PyStr ''$89''), TextCell (PyStr ''Shirt''),
         TextCell (PyStr ''http://example.com/shirt.jpg''),
         VectorCell (map rnd [1000..<2000])],
        [TextCell (PyStr ''Designer Dress''), TextCell (PyStr ''Trendy Brand''),
         TextCell (PyStr ''$199''), TextCell (PyStr ''Dress''),
         TextCell (PyStr ''http://example.com/dress.jpg''),
         VectorCell (map rnd [2000..<3000])]]"
proof -
  have r: "random_embeddings rnd 0 3
             = [map rnd [0..<1000], map rnd [1000..<2000], map rnd [2000..<3000]]"
    by (simp add: numeral_3_eq_3)
  have u: "[0..<3] = [0, 1, 2]" by (simp add: numeral_3_eq_3 upt_rec)
  show ?thesis
    unfolding dummy_dataset_def frame_of_columns_def text_column_def r u by simp
qed

lemma load_data_missing:
  assumes "dataset_path = None \<or> dataset_path = Some []
           \<or> (\<exists>p. dataset_path = Some p \<and> os_path_exists env (PathStr p) = Inr False)"
  shows "load_data env dataset_path =
           (Inr (dummy_dataset (random_stream env)),
            [Print (''Warning: Dataset file not found at ''
                    @ (case dataset_path of None \<Rightarrow> ''None'' | Some p \<Rightarrow> p)
                    @ ''. Creating dummy dataset for testing.'')])"
  using assms by (auto simp: load_data_def dummy_branch_def)

lemma load_data_existing:
  assumes "dataset_path = Some p" "p \<noteq> []" "os_path_exists env (PathStr p) = Inr True"
  shows "load_data env dataset_path =
           (case read_pickle env p of
              Inl e \<Rightarrow> (Inl e, [])
            | Inr loaded \<Rightarrow>
                (case dataset_empty loaded of
                   Inl e \<Rightarrow> (Inl e, [])
                 | Inr is_empty \<Rightarrow>
                     if is_empty then (Inl (PyException ''The loaded dataset is empty''), [])
                     else (Inr loaded, [])))"
  using assms by (simp add: load_data_def)

text \<open>
  Claim C10, as amended.  With no dataset path, an empty one, or one that names no existing
  file, loading the data does not raise: a warning is printed and the dummy frame is
  built, three rows named Elegant Blazer, Classic Shirt and Designer Dress, each with an
  embedding of 1000 values drawn from the random source; construction then succeeds when
  the image processor constructs and fails with its exception otherwise.  With an
  existing file, construction fails with the loader's own exception when
  \<^verbatim>\<open>pd.read_pickle\<close> raises, with the exception of the \<^verbatim>\<open>empty\<close> attribute when what was
  loaded has none, and with \<^verbatim>\<open>The loaded dataset is empty\<close> when the loaded frame has no
  rows or no columns; otherwise the loaded data is kept, and construction succeeds when
  the image processor constructs.
\<close>

theorem constructor_dummy_catalog_or_error:
  "((dataset_path = None \<or> dataset_path = Some []
      \<or> (\<exists>p. dataset_path = Some p \<and> os_path_exists env (PathStr p) = Inr False)) \<longrightarrow>
      load_data env dataset_path =
        (Inr (dummy_dataset (random_stream env)),
         [Print (''Warning: Dataset file not found at ''
                 @ (case dataset_path of None \<Rightarrow> ''None'' | Some p \<Rightarrow> p)
                 @ ''. Creating dummy dataset for testing.'')])
      \<and> dummy_dataset (random_stream env) =
          Frame [''Item Name'', ''Brand'', ''Price'', ''Category'', ''Image URL'', ''Embedding'']
            [[TextCell (PyStr ''Elegant Blazer''), TextCell (PyStr ''Fashion House''),
              TextCell (PyStr ''$299''), TextCell (PyStr ''Blazer''),
              TextCell (PyStr ''http://example.com/blazer.jpg''),
              VectorCell (map (random_stream env) [0..<1000])],
             [TextCell (PyStr ''Classic Shirt''), TextCell (PyStr ''Style Co.''),
              TextCell (PyStr ''$89''), TextCell (PyStr ''Shirt''),
              TextCell (PyStr ''http://example.com/shirt.jpg''),
              VectorCell (map (random_stream env) [1000..<2000])],
             [TextCell (PyStr ''Designer Dress''), TextCell (PyStr ''Trendy Brand''),
              TextCell (PyStr ''$199''), TextCell (PyStr ''Dress''),
              TextCell (PyStr ''http://example.com/dress.jpg''),
              VectorCell (map (random_stream env) [2000..<3000])]]
      \<and> length (map (random_stream env) [0..<1000]) = 1000
      \<and> length (map (random_stream env) [1000..<2000]) = 1000
      \<and> length (map (random_stream env) [2000..<3000]) = 1000
      \<and> (image_processor_init env = Inr () \<longrightarrow>
           fst (style_finder_app_init env dataset_path)
             = Inr \<lparr>data = dummy_dataset (random_stream env), llm_service = config_service\<rparr>)
      \<and> (\<forall>e. image_processor_init env = Inl e \<longrightarrow>
           fst (style_finder_app_init env dataset_path) = Inl e))
   \<and> (\<forall>p. dataset_path = Some p \<and> p \<noteq> [] \<and> os_path_exists env (PathStr p) = Inr True \<longrightarrow>
        (\<forall>e. read_pickle env p = Inl e \<longrightarrow>
              style_finder_app_init env dataset_path = (Inl e, []))
        \<and> (\<forall>d e. read_pickle env p = Inr d \<and> dataset_empty d = Inl e \<longrightarrow>
              style_finder_app_init env dataset_path = (Inl e, []))
        \<and> (\<forall>d. read_pickle env p = Inr d \<and> dataset_empty d = Inr True \<longrightarrow>
              style_finder_app_init env dataset_path
                = (Inl (PyException ''The loaded dataset is empty''), []))
        \<and> (\<forall>d. read_pickle env p = Inr d \<and> dataset_empty d = Inr False
                 \<and> image_processor_init env = Inr () \<longrightarrow>
              style_finder_app_init env dataset_path
                = (Inr \<lparr>data = d, llm_service = config_service\<rparr>, []))
        \<and> (\<forall>d e. read_pickle env p = Inr d \<and> dataset_empty d = Inr False
                 \<and> image_processor_init env = Inl e \<longrightarrow>
              style_finder_app_init env dataset_path = (Inl e, [])))
   \<and> (\<forall>p e. dataset_path = Some p \<and> p \<noteq> [] \<and> os_path_exists env (PathStr p) = Inl e \<longrightarrow>
        style_finder_app_init env dataset_path = (Inl e, []))"
proof (intro conjI impI allI)
  assume a: "dataset_path = None \<or> dataset_path = Some []
      \<or> (\<exists>p. dataset_path = Some p \<and> os_path_exists env (PathStr p) = Inr False)"
  show "load_data env dataset_path =
        (Inr (dummy_dataset (random_stream env)),
         [Print (''Warning: Dataset file not found at ''
                 @ (case dataset_path of None \<Rightarrow> ''None'' | Some p \<Rightarrow> p)
                 @ ''. Creating dummy dataset for testing.'')])"
    by (rule load_data_missing [OF a])
  show "dummy_dataset (random_stream env) =
          Frame [''Item Name'', ''Brand'', ''Price'', ''Category'', ''Image URL'', ''Embedding'']
            [[TextCell (PyStr ''Elegant Blazer''), TextCell (PyStr ''Fashion House''),
              TextCell (PyStr ''$299''), TextCell (PyStr ''Blazer''),
              TextCell (PyStr ''http://example.com/blazer.jpg''),
              VectorCell (map (random_stream env) [0..<1000])],
             [TextCell (PyStr ''Classic Shirt''), TextCell (PyStr ''Style Co.''),
              TextCell (PyStr ''$89''), TextCell (PyStr ''Shirt''),
              TextCell (PyStr ''http://example.com/shirt.jpg''),
              VectorCell (map (random_stream env) [1000..<2000])],
             [TextCell (PyStr ''Designer Dress''), TextCell (PyStr ''Trendy Brand''),
              TextCell (PyStr ''$199''), TextCell (PyStr ''Dress''),
              TextCell (PyStr ''http://example.com/dress.jpg''),
              VectorCell (map (random_stream env) [2000..<3000])]]"
    by (rule dummy_dataset_rows)
  show "length (map (random_stream env) [0..<1000]) = 1000"
    "length (map (random_stream env) [1000..<2000]) = 1000"
    "length (map (random_stream env) [2000..<3000]) = 1000"
    by simp_all
  show "fst (style_finder_app_init env dataset_path)
             = Inr \<lparr>data = dummy_dataset (random_stream env), llm_service = config_service\<rparr>"
    if "image_processor_init env = Inr ()"
    using that by (simp add: style_finder_app_init_def load_data_missing [OF a])
  show "fst (style_finder_app_init env dataset_path) = Inl e"
    if "image_processor_init env = Inl e" for e
    using that by (simp add: style_finder_app_init_def load_data_missing [OF a])
next
  fix p e assume "dataset_path = Some p \<and> p \<noteq> [] \<and> os_path_exists env (PathStr p) = Inr True"
    and "read_pickle env p = Inl e"
  then show "style_finder_app_init env dataset_path = (Inl e, [])"
    by (simp add: style_finder_app_init_def load_data_existing)
next
  fix p d e assume "dataset_path = Some p \<and> p \<noteq> [] \<and> os_path_exists env (PathStr p) = Inr True"
    and "read_pickle env p = Inr d \<and> dataset_empty d = Inl e"
  then show "style_finder_app_init env dataset_path = (Inl e, [])"
    by (simp add: style_finder_app_init_def load_data_existing)
next
  fix p d assume "dataset_path = Some p \<and> p \<noteq> [] \<and> os_path_exists env (PathStr p) = Inr True"
    and "read_pickle env p = Inr d \<and> dataset_empty d = Inr True"
  then show "style_finder_app_init env dataset_path
                = (Inl (PyException ''The loaded dataset is empty''), [])"
    by (simp add: style_finder_app_init_def load_data_existing)
next
  fix p d assume "dataset_path = Some p \<and> p \<noteq> [] \<and> os_path_exists env (PathStr p) = Inr True"
    and "read_pickle env p = Inr d \<and> dataset_empty d = Inr False
                 \<and> image_processor_init env = Inr ()"
  then show "style_finder_app_init env dataset_path
                = (Inr \<lparr>data = d, llm_service = config_service\<rparr>, [])"
    by (simp add: style_finder_app_init_def load_data_existing)
next
  fix p d e assume "dataset_path = Some p \<and> p \<noteq> [] \<and> os_path_exists env (PathStr p) = Inr True"
    and "read_pickle env p = Inr d \<and> dataset_empty d = Inr False
                 \<and> image_processor_init env = Inl e"
  then show "style_finder_app_init env dataset_path = (Inl e, [])"
    by (simp add: style_finder_app_init_def load_data_existing)
next
  fix p e assume "dataset_path = Some p \<and> p \<noteq> [] \<and> os_path_exists env (PathStr p) = Inl e"
  then show "style_finder_app_init env dataset_path = (Inl e, [])"
    by (simp add: style_finder_app_init_def load_data_def)
qed

theorem constructor_dummy_catalog_or_error_witness:
  "fst (style_finder_app_init sample_env None)
     = Inr \<lparr>data = dummy_dataset (random_stream sample_env), llm_service = config_service\<rparr>
   \<and> fst (style_finder_app_init missing_file_env (Some ''swift-style-embeddings.pkl''))
     = Inr \<lparr>data = dummy_dataset (random_stream missing_file_env),
            llm_service = config_service\<rparr>
   \<and> fst (style_finder_app_init broken_processor_env None)
     = Inl (PyException ''model weights not found'')
   \<and> style_finder_app_init sample_env (Some ''swift-style-embeddings.pkl'')
     = (Inl (PyException ''The loaded dataset is empty''), [])
   \<and> style_finder_app_init columnless_file_env (Some ''swift-style-embeddings.pkl'')
     = (Inl (PyException ''The loaded dataset is empty''), [])
   \<and> style_finder_app_init dictionary_file_env (Some ''swift-style-embeddings.pkl'')
     = (Inl attribute_error, [])
   \<and> style_finder_app_init corrupt_file_env (Some ''swift-style-embeddings.pkl'')
     = (Inl (PyException ''invalid load key''), [])
   \<and> style_finder_app_init populated_file_env (Some ''swift-style-embeddings.pkl'')
     = (Inr \<lparr>data = blazer_frame, llm_service = config_service\<rparr>, [])"
proof -
  have a: "fst (style_finder_app_init sample_env None)
     = Inr \<lparr>data = dummy_dataset (random_stream sample_env), llm_service = config_service\<rparr>"
    using constructor_dummy_catalog_or_error [of None sample_env]
    by (simp add: sample_env_def)
  have b: "fst (style_finder_app_init missing_file_env (Some ''swift-style-embeddings.pkl''))
     = Inr \<lparr>data = dummy_dataset (random_stream missing_file_env),
            llm_service = config_service\<rparr>"
    using constructor_dummy_catalog_or_error
            [of "Some ''swift-style-embeddings.pkl''" missing_file_env]
    by (simp add: missing_file_env_def sample_env_def)
  have c: "fst (style_finder_app_init broken_processor_env None)
     = Inl (PyException ''model weights not found'')"
    using constructor_dummy_catalog_or_error [of None broken_processor_env]
    by (simp add: broken_processor_env_def sample_env_def)
  have d: "style_finder_app_init sample_env (Some ''swift-style-embeddings.pkl'')
     = (Inl (PyException ''The loaded dataset is empty''), [])"
    using constructor_dummy_catalog_or_error
            [of "Some ''swift-style-embeddings.pkl''" sample_env]
    by (simp add: sample_env_def)
  have e: "style_finder_app_init columnless_file_env (Some ''swift-style-embeddings.pkl'')
     = (Inl (PyException ''The loaded dataset is empty''), [])"
    using constructor_dummy_catalog_or_error
            [of "Some ''swift-style-embeddings.pkl''" columnless_file_env]
    by (simp add: columnless_file_env_def sample_env_def)
  have f: "style_finder_app_init dictionary_file_env (Some ''swift-style-embeddings.pkl'')
     = (Inl attribute_error, [])"
    using constructor_dummy_catalog_or_error
            [of "Some ''swift-style-embeddings.pkl''" dictionary_file_env]
    by (simp add: dictionary_file_env_def sample_env_def)
  have g: "style_finder_app_init corrupt_file_env (Some ''swift-style-embeddings.pkl'')
     = (Inl (PyException ''invalid load key''), [])"
    using constructor_dummy_catalog_or_error
            [of "Some ''swift-style-embeddings.pkl''" corrupt_file_env]
    by (simp add: corrupt_file_env_def sample_env_def)
  have h: "style_finder_app_init populated_file_env (Some ''swift-style-embeddings.pkl'')
     = (Inr \<lparr>data = blazer_frame, llm_service = config_service\<rparr>, [])"
    using constructor_dummy_catalog_or_error
            [of "Some ''swift-style-embeddings.pkl''" populated_file_env]
    by (simp add: populated_file_env_def sample_env_def blazer_frame_def)
  from a b c d e f g h show ?thesis by (intro conjI)
qed

text \<open>
  The claim as first stated fails for an existing file that cannot be unpickled:
  construction fails although nothing was loaded as empty.  The dummy branch is not
  silent either, it prints a warning.
\<close>

theorem unreadable_dataset_also_fails:
  "os_path_exists corrupt_file_env (PathStr ''swift-style-embeddings.pkl'') = Inr True
   \<and> read_pickle corrupt_file_env ''swift-style-embeddings.pkl''
       = Inl (PyException ''invalid load key'')
   \<and> fst (style_finder_app_init corrupt_file_env (Some ''swift-style-embeddings.pkl''))
       = Inl (PyException ''invalid load key'')
   \<and> snd (style_finder_app_init sample_env None)
       = [Print ''Warning: Dataset file not found at None. Creating dummy dataset for testing.'']"
  by (simp add: style_finder_app_init_def load_data_def dummy_branch_def corrupt_file_env_def
        sample_env_def)

section \<open>Properties of the similarity matcher\<close>

lemma dot_self_nonneg: "0 \<le> dot v v"
  unfolding dot_def by (induction v) simp_all

lemma dot_Cons: "dot (x # xs) (y # ys) = x * y + dot xs ys"
  by (simp add: dot_def)

lemma two_products_le:
  fixes x y a A B :: real
  assumes "a\<^sup>2 \<le> A * B" "0 \<le> A" "0 \<le> B"
  shows "2 * x * y * a \<le> x\<^sup>2 * B + y\<^sup>2 * A"
proof (rule power2_le_imp_le)
  have "(2 * x * y * a)\<^sup>2 = 4 * (x\<^sup>2 * y\<^sup>2) * a\<^sup>2" by (simp add: power2_eq_square)
  also have "\<dots> \<le> 4 * (x\<^sup>2 * y\<^sup>2) * (A * B)"
    by (rule mult_left_mono [OF assms(1)]) simp
  also have "\<dots> \<le> (x\<^sup>2 * B + y\<^sup>2 * A)\<^sup>2"
  proof -
    have "0 \<le> (x\<^sup>2 * B - y\<^sup>2 * A)\<^sup>2" by simp
    then show ?thesis by (simp add: power2_eq_square algebra_simps)
  qed
  finally show "(2 * x * y * a)\<^sup>2 \<le> (x\<^sup>2 * B + y\<^sup>2 * A)\<^sup>2" .
  show "0 \<le> x\<^sup>2 * B + y\<^sup>2 * A" using assms(2,3) by simp
qed

lemma dot_square_le:
  "length xs = length ys \<Longrightarrow> (dot xs ys)\<^sup>2 \<le> dot xs xs * dot ys ys"
proof (induction xs ys rule: list_induct2)
  case Nil
  show ?case by (simp add: dot_def)
next
  case (Cons x xs y ys)
  have "2 * x * y * dot xs ys \<le> x\<^sup>2 * dot ys ys + y\<^sup>2 * dot xs xs"
    by (rule two_products_le [OF Cons.IH dot_self_nonneg dot_self_nonneg])
  with Cons.IH show ?case
    by (simp add: dot_Cons power2_eq_square algebra_simps)
qed

lemma dot_le_norms:
  assumes "length xs = length ys"
  shows "dot xs ys \<le> vec_norm xs * vec_norm ys"
proof -
  have "dot xs ys \<le> \<bar>dot xs ys\<bar>" by simp
  also have "\<dots> = sqrt ((dot xs ys)\<^sup>2)" by simp
  also have "\<dots> \<le> sqrt (dot xs xs * dot ys ys)"
    by (rule real_sqrt_le_mono [OF dot_square_le [OF assms]])
  also have "\<dots> = vec_norm xs * vec_norm ys"
    by (simp add: vec_norm_def real_sqrt_mult)
  finally show ?thesis .
qed

lemma vec_norm_nonneg: "0 \<le> vec_norm v"
  by (simp add: vec_norm_def dot_self_nonneg)

lemma cosine_le_one:
  assumes "length q = length e"
  shows "cosine_similarity q e \<le> 1"
proof (cases "vec_norm q = 0 \<or> vec_norm e = 0")
  case True
  then show ?thesis by (simp add: cosine_similarity_def)
next
  case False
  with vec_norm_nonneg [of q] vec_norm_nonneg [of e]
  have "0 < vec_norm q * vec_norm e" by simp
  with dot_le_norms [OF assms] False show ?thesis
    by (simp add: cosine_similarity_def)
qed

lemma cosine_self:
  assumes "vec_norm q \<noteq> 0"
  shows "cosine_similarity q q = 1"
proof -
  have "vec_norm q * vec_norm q = dot q q"
    by (simp add: vec_norm_def dot_self_nonneg)
  moreover from this assms have "dot q q \<noteq> 0" by auto
  ultimately show ?thesis using assms by (simp add: cosine_similarity_def)
qed

lemma best_from_first_maximum:
  assumes "best_from bi bs i ss = (j, m)"
    and "length pre = i" and "bi < i" and "pre ! bi = bs"
    and "\<forall>k<i. pre ! k \<le> bs" and "\<forall>k<bi. pre ! k < bs"
  shows "j < length (pre @ ss) \<and> (pre @ ss) ! j = m
         \<and> (\<forall>k<length (pre @ ss). (pre @ ss) ! k \<le> m) \<and> (\<forall>k<j. (pre @ ss) ! k < m)"
  using assms
proof (induction ss arbitrary: bi bs i pre)
  case Nil
  then show ?case by auto
next
  case (Cons s ss)
  let ?pre = "pre @ [s]"
  show ?case
  proof (cases "bs < s")
    case True
    with Cons.prems have b: "best_from i s (Suc i) ss = (j, m)" by simp
    have "j < length (?pre @ ss) \<and> (?pre @ ss) ! j = m
         \<and> (\<forall>k<length (?pre @ ss). (?pre @ ss) ! k \<le> m) \<and> (\<forall>k<j. (?pre @ ss) ! k < m)"
    proof (rule Cons.IH [OF b])
      show "length ?pre = Suc i" using Cons.prems by simp
      show "i < Suc i" by simp
      show "?pre ! i = s" using Cons.prems(2) by (simp add: nth_append)
      show "\<forall>k<Suc i. ?pre ! k \<le> s"
        using Cons.prems True by (auto simp: nth_append less_Suc_eq intro: order_trans less_imp_le)
      show "\<forall>k<i. ?pre ! k < s"
        using Cons.prems True by (auto simp: nth_append intro: le_less_trans)
    qed
    then show ?thesis by simp
  next
    case False
    with Cons.prems have b: "best_from bi bs (Suc i) ss = (j, m)" by simp
    have "j < length (?pre @ ss) \<and> (?pre @ ss) ! j = m
         \<and> (\<forall>k<length (?pre @ ss). (?pre @ ss) ! k \<le> m) \<and> (\<forall>k<j. (?pre @ ss) ! k < m)"
    proof (rule Cons.IH [OF b])
      show "length ?pre = Suc i" using Cons.prems by simp
      show "bi < Suc i" using Cons.prems by simp
      show "?pre ! bi = bs" using Cons.prems by (simp add: nth_append)
      show "\<forall>k<Suc i. ?pre ! k \<le> bs"
        using Cons.prems False by (auto simp: nth_append less_Suc_eq)
      show "\<forall>k<bi. ?pre ! k < bs"
        using Cons.prems by (auto simp: nth_append)
    qed
    then show ?thesis by simp
  qed
qed

lemma best_from_start:
  assumes "best_from 0 s 1 ss = (j, m)"
  shows "j < length (s # ss) \<and> (s # ss) ! j = m
         \<and> (\<forall>k<length (s # ss). (s # ss) ! k \<le> m) \<and> (\<forall>k<j. (s # ss) ! k < m)"
  using best_from_first_maximum [OF assms, of "[s]"] by simp

lemma matcher_first_maximum:
  assumes "store \<noteq> []" and "\<forall>e \<in> set store. length (snd e) = length query"
  shows "\<exists>i<length store.
           matcher_match query store
             = Inr (store ! i, cosine_similarity query (snd (store ! i)))
           \<and> (\<forall>j<length store. cosine_similarity query (snd (store ! j))
                                 \<le> cosine_similarity query (snd (store ! i)))
           \<and> (\<forall>j<i. cosine_similarity query (snd (store ! j))
                       < cosine_similarity query (snd (store ! i)))"
proof -
  let ?sims = "map (\<lambda>e. cosine_similarity query (snd e)) store"
  from assms(1) obtain s ss where sims: "?sims = s # ss" by (cases store) auto
  obtain j m where b: "best_from 0 s 1 ss = (j, m)" by (cases "best_from 0 s 1 ss")
  from best_from_start [OF b] sims
  have j: "j < length ?sims" and m: "?sims ! j = m"
    and mx: "\<forall>k<length ?sims. ?sims ! k \<le> m" and fst: "\<forall>k<j. ?sims ! k < m"
    by simp_all
  from assms(2) have nd: "\<not> list_ex (\<lambda>e. length (snd e) \<noteq> length query) store"
    by (simp add: list_ex_iff)
  have r: "matcher_match query store = Inr (store ! j, m)"
    unfolding matcher_match_def using sims b nd by simp
  from j have jl: "j < length store" by simp
  with m have m': "m = cosine_similarity query (snd (store ! j))" by simp
  from mx have mx': "\<forall>k<length store. cosine_similarity query (snd (store ! k)) \<le> m" by simp
  from fst jl have fst': "\<forall>k<j. cosine_similarity query (snd (store ! k)) < m" by simp
  from jl r m' mx' fst' show ?thesis by blast
qed


text \<open>
  Claim C8, as amended.  For every non-empty catalog and every query of the catalog's
  dimension, the matcher returns an entry of maximal cosine similarity together with that
  similarity, and among the entries of maximal similarity the one of lowest index.  When
  the query equals the embedding of entry \<open>k\<close> and is not the zero vector, the score is 1
  and the entry returned is the first one of similarity 1, at index \<open>k\<close> or before it: it
  is entry \<open>k\<close> itself when no earlier entry has similarity 1.
\<close>

theorem matcher_returns_first_maximum:
  assumes "store \<noteq> []" and "\<forall>e \<in> set store. length (snd e) = length query"
  shows "(\<exists>i<length store.
           matcher_match query store
             = Inr (store ! i, cosine_similarity query (snd (store ! i)))
           \<and> (\<forall>j<length store. cosine_similarity query (snd (store ! j))
                                 \<le> cosine_similarity query (snd (store ! i)))
           \<and> (\<forall>j<i. cosine_similarity query (snd (store ! j))
                       < cosine_similarity query (snd (store ! i))))
     \<and> (\<forall>k<length store. snd (store ! k) = query \<and> vec_norm query \<noteq> 0 \<longrightarrow>
           (\<exists>i\<le>k. matcher_match query store = Inr (store ! i, 1)
                  \<and> cosine_similarity query (snd (store ! i)) = 1
                  \<and> (\<forall>j<i. cosine_similarity query (snd (store ! j)) < 1))
           \<and> ((\<forall>j<k. cosine_similarity query (snd (store ! j)) < 1) \<longrightarrow>
                matcher_match query store = Inr (store ! k, 1)))"
proof -
  from matcher_first_maximum [OF assms] obtain i where
    i: "i < length store"
    and r: "matcher_match query store
             = Inr (store ! i, cosine_similarity query (snd (store ! i)))"
    and mx: "\<forall>j<length store. cosine_similarity query (snd (store ! j))
                                 \<le> cosine_similarity query (snd (store ! i))"
    and first: "\<forall>j<i. cosine_similarity query (snd (store ! j))
                       < cosine_similarity query (snd (store ! i))"
    by blast
  have part2: "(\<exists>i\<le>k. matcher_match query store = Inr (store ! i, 1)
                  \<and> cosine_similarity query (snd (store ! i)) = 1
                  \<and> (\<forall>j<i. cosine_similarity query (snd (store ! j)) < 1))
           \<and> ((\<forall>j<k. cosine_similarity query (snd (store ! j)) < 1) \<longrightarrow>
                matcher_match query store = Inr (store ! k, 1))"
    if k: "k < length store" and q: "snd (store ! k) = query \<and> vec_norm query \<noteq> 0" for k
  proof -
    from q have ck: "cosine_similarity query (snd (store ! k)) = 1"
      by (simp add: cosine_self)
    from i assms(2) have "length query = length (snd (store ! i))" by simp
    then have "cosine_similarity query (snd (store ! i)) \<le> 1" by (rule cosine_le_one)
    moreover from mx k ck have "1 \<le> cosine_similarity query (snd (store ! i))" by auto
    ultimately have ci: "cosine_similarity query (snd (store ! i)) = 1" by simp
    have ik: "i \<le> k"
    proof (rule ccontr)
      assume "\<not> i \<le> k"
      then have "k < i" by simp
      with first ck ci show False by auto
    qed
    have a: "\<exists>i\<le>k. matcher_match query store = Inr (store ! i, 1)
                  \<and> cosine_similarity query (snd (store ! i)) = 1
                  \<and> (\<forall>j<i. cosine_similarity query (snd (store ! j)) < 1)"
      using ik r ci first by auto
    have b: "matcher_match query store = Inr (store ! k, 1)"
      if "\<forall>j<k. cosine_similarity query (snd (store ! j)) < 1"
    proof -
      from that ci have "\<not> i < k" by auto
      with ik have "i = k" by simp
      with r ci show ?thesis by simp
    qed
    from a b show ?thesis by blast
  qed
  from i r mx first part2 show ?thesis by blast
qed

lemma unit_norms:
  "vec_norm [1, 0, 0] = 1" "vec_norm [0, 1, 0] = 1" "vec_norm [0, 0, 1] = 1"
  "vec_norm [1, 0] = 1" "vec_norm [0, 0] = 0"
  by (simp_all add: vec_norm_def dot_def)

theorem matcher_returns_first_maximum_witness:
  "three_store \<noteq> []
   \<and> map (\<lambda>e. length (snd e)) three_store = [3, 3, 3] \<and> length [0, 1, 0 :: real] = 3
   \<and> snd (three_store ! 1) = [0, 1, 0] \<and> vec_norm [0, 1, 0] \<noteq> 0
   \<and> matcher_match [0, 1, 0] three_store = Inr ((shirt_row, [0, 1, 0]), 1)"
proof -
  have h1: "three_store \<noteq> []" by (simp add: three_store_def)
  have h2: "\<forall>e \<in> set three_store. length (snd e) = length [0, 1, 0 :: real]"
    by (simp add: three_store_def)
  have h3: "(1::nat) < length three_store" by (simp add: three_store_def)
  have h4: "snd (three_store ! 1) = [0, 1, 0] \<and> vec_norm [0, 1, 0] \<noteq> 0"
    by (simp add: three_store_def unit_norms)
  have h5: "\<forall>j<1. cosine_similarity [0, 1, 0] (snd (three_store ! j)) < 1"
    by (simp add: three_store_def cosine_similarity_def unit_norms dot_def)
  have e: "three_store ! 1 = (shirt_row, [0, 1, 0])" by (simp add: three_store_def)
  from matcher_returns_first_maximum [OF h1 h2] h3 h4 h5
  have "matcher_match [0, 1, 0] three_store = Inr (three_store ! 1, 1)" by blast
  moreover have "map (\<lambda>e. length (snd e)) three_store = [3, 3, 3]"
    by (simp add: three_store_def)
  ultimately show ?thesis using h1 h4 e by simp
qed

text \<open>
  The claim as first stated fails where two entries share an embedding: a query equal to
  the embedding of the second one yields the first.  It also fails for an entry whose
  embedding is the zero vector, where the score is the minimum \<open>-1\<close>.
\<close>

theorem matcher_tie_goes_to_first:
  "snd (twin_store ! 1) = [1, 0]
   \<and> matcher_match [1, 0] twin_store = Inr (twin_store ! 0, 1)
   \<and> twin_store ! 0 \<noteq> twin_store ! 1
   \<and> matcher_match [0, 0] [(blazer_row, [0, 0])] = Inr ((blazer_row, [0, 0]), - 1)"
  by (simp add: twin_store_def matcher_match_def cosine_similarity_def unit_norms dot_def
        blazer_row_def shirt_row_def)

end
